theory Spec2Isabelle
  imports Complex_Main
begin

section \<open>Containers and operators shared by the transfer classes\<close>

text \<open>
  A \<open>Vector\<close> holds doubles; its entries are taken in exact arithmetic (\<open>real\<close>), so
  rounding is outside every statement below. An \<open>Operator\<close> is the pair of actions
  \<open>y = A x\<close> and \<open>y = A\<^sup>T x\<close> that the C++ class offers through \<open>Mult\<close> and
  \<open>MultTranspose\<close>, with the sizes \<open>height\<close> and \<open>width\<close> of its outputs and inputs.
\<close>

type_synonym Vector = "real list"

record Operator =
  height :: nat
  width :: nat
  Mult :: "Vector \<Rightarrow> Vector"
  MultTranspose :: "Vector \<Rightarrow> Vector"

datatype error =
    Unsupported
  | UnsupportedDimension int
  | VerifyFailed
  | NullPointer

section \<open>GridTransfer and L2ProjectionGridTransfer::BuildF\<close>

datatype ContType = CONTINUOUS | TANGENTIAL | NORMAL | DISCONTINUOUS

text \<open>
  The part of a \<open>GridTransfer\<close> object that \<open>BuildF\<close> reads. \<open>parallel\<close> is the
  member the constructor sets under \<open>MFEM_USE_MPI\<close>; \<open>dom_cont_type\<close> is
  \<open>dom_fes.FEColl()->GetContType()\<close>.
\<close>

record GridTransfer =
  parallel :: bool
  force_l2_space :: bool
  dom_cont_type :: ContType

text \<open>
  The constructor: with MPI the two spaces must both be serial or both parallel; without
  MPI the object is never parallel.
\<close>

definition GridTransfer_ctor :: "bool \<Rightarrow> bool \<Rightarrow> bool \<Rightarrow> bool \<Rightarrow> ContType \<Rightarrow> error + GridTransfer" where
  "GridTransfer_ctor use_mpi par_dom par_ran force ct =
     (if use_mpi then
        (if par_dom = par_ran
         then Inr \<lparr>parallel = par_dom, force_l2_space = force, dom_cont_type = ct\<rparr>
         else Inl VerifyFailed)
      else Inr \<lparr>parallel = False, force_l2_space = force, dom_cont_type = ct\<rparr>)"

definition Parallel :: "GridTransfer \<Rightarrow> bool" where
  "Parallel gt = parallel gt"

datatype L2ProjectionKind =
    L2ProjectionH1Space_serial
  | L2ProjectionH1Space_parallel
  | L2ProjectionL2Space_kind

text \<open>
  \<open>BuildF\<close> returns the new value of the member \<open>F\<close>; \<open>None\<close> is the null pointer that
  stays when the parallel branch is compiled out.
\<close>

definition BuildF :: "bool \<Rightarrow> GridTransfer \<Rightarrow> L2ProjectionKind option" where
  "BuildF use_mpi gt =
     (if \<not> force_l2_space gt \<and> dom_cont_type gt = CONTINUOUS then
        (if \<not> Parallel gt then Some L2ProjectionH1Space_serial
         else if use_mpi then Some L2ProjectionH1Space_parallel else None)
      else Some L2ProjectionL2Space_kind)"

definition is_H1Space :: "L2ProjectionKind option \<Rightarrow> bool" where
  "is_H1Space k = (k = Some L2ProjectionH1Space_serial \<or> k = Some L2ProjectionH1Space_parallel)"

section \<open>TrueTransferOperator\<close>

text \<open>
  \<open>tto_P\<close> is the member \<open>P\<close>, the prolongation of the coarse space, and \<open>tto_R\<close> the
  member \<open>R\<close>, the restriction of the fine space (either may be the null pointer);
  \<open>localTransferOperator\<close> is the transfer between the local vectors.
\<close>

record TrueTransferOperator =
  localTransferOperator :: Operator
  tto_P :: "Operator option"
  tto_R :: "Operator option"

definition TrueTransferOperator_ctor ::
  "Operator \<Rightarrow> Operator option \<Rightarrow> Operator option \<Rightarrow> error + TrueTransferOperator" where
  "TrueTransferOperator_ctor loc lP hR =
     (if lP \<noteq> None \<and> hR = None then Inl VerifyFailed
      else Inr \<lparr>localTransferOperator = loc, tto_P = lP, tto_R = hR\<rparr>)"

text \<open>
  \<open>Mult\<close> and \<open>MultTranspose\<close> test \<open>P\<close> first and then use \<open>R\<close> without a test; a null
  \<open>R\<close> in the first branch is a null dereference.
\<close>

definition TrueTransferOperator_Mult :: "TrueTransferOperator \<Rightarrow> Vector \<Rightarrow> error + Vector" where
  "TrueTransferOperator_Mult t x =
     (case tto_P t of
        Some p \<Rightarrow>
          (let tmpL = Mult p x;
               tmpH = Mult (localTransferOperator t) tmpL
           in case tto_R t of Some r \<Rightarrow> Inr (Mult r tmpH) | None \<Rightarrow> Inl NullPointer)
      | None \<Rightarrow>
          (case tto_R t of
             Some r \<Rightarrow> (let tmpH = Mult (localTransferOperator t) x in Inr (Mult r tmpH))
           | None \<Rightarrow> Inr (Mult (localTransferOperator t) x)))"

definition TrueTransferOperator_MultTranspose :: "TrueTransferOperator \<Rightarrow> Vector \<Rightarrow> error + Vector" where
  "TrueTransferOperator_MultTranspose t x =
     (case tto_P t of
        Some p \<Rightarrow>
          (case tto_R t of
             Some r \<Rightarrow>
               (let tmpH = MultTranspose r x;
                    tmpL = MultTranspose (localTransferOperator t) tmpH
                in Inr (MultTranspose p tmpL))
           | None \<Rightarrow> Inl NullPointer)
      | None \<Rightarrow>
          (case tto_R t of
             Some r \<Rightarrow>
               (let tmpH = MultTranspose r x
                in Inr (MultTranspose (localTransferOperator t) tmpH))
           | None \<Rightarrow> Inr (MultTranspose (localTransferOperator t) x)))"

text \<open>The identity stands in for an operator that is absent.\<close>

definition or_identity :: "Operator option \<Rightarrow> Operator" where
  "or_identity A =
     (case A of Some a \<Rightarrow> a
      | None \<Rightarrow> \<lparr>height = 0, width = 0, Mult = (\<lambda>x. x), MultTranspose = (\<lambda>x. x)\<rparr>)"

section \<open>Vectors and dense matrices\<close>

text \<open>
  Modelled from the spec: the vector and dense-matrix containers (linalg/, an external
  collaborator of this core) with the sign transform of the DOF-index mapping: a
  non-negative index \<open>j\<close> addresses entry \<open>j\<close>, a negative index \<open>-1-j\<close> addresses entry
  \<open>j\<close> with the sign of the value flipped. Reads and writes are meant for indices inside
  the vector, which the C++ code requires as well.
\<close>

definition DecodeDof :: "int \<Rightarrow> nat" where
  "DecodeDof dof = (if dof \<ge> 0 then nat dof else nat (-1 - dof))"

definition GetSubVector :: "Vector \<Rightarrow> int list \<Rightarrow> Vector" where
  "GetSubVector v dofs = map (\<lambda>j. if j \<ge> 0 then v ! nat j else - (v ! nat (-1 - j))) dofs"

definition SetSubVector :: "Vector \<Rightarrow> int list \<Rightarrow> Vector \<Rightarrow> Vector" where
  "SetSubVector v dofs elemvect =
     fold (\<lambda>(j, e) w. if j \<ge> 0 then w[nat j := e] else w[nat (-1 - j) := - e])
       (zip dofs elemvect) v"

definition AddElementVector :: "Vector \<Rightarrow> int list \<Rightarrow> Vector \<Rightarrow> Vector" where
  "AddElementVector v dofs elemvect =
     fold (\<lambda>(j, e) w. if j \<ge> 0 then w[nat j := w ! nat j + e]
                       else w[nat (-1 - j) := w ! nat (-1 - j) - e])
       (zip dofs elemvect) v"

text \<open>A dense matrix stores its entries column by column, as \<open>DenseMatrix\<close> does.\<close>

record DenseMatrix =
  Height :: nat
  Width :: nat
  data :: Vector

definition Elem :: "DenseMatrix \<Rightarrow> nat \<Rightarrow> nat \<Rightarrow> real" where
  "Elem A i j = data A ! (i + j * Height A)"

definition dm_of_fun :: "nat \<Rightarrow> nat \<Rightarrow> (nat \<Rightarrow> nat \<Rightarrow> real) \<Rightarrow> DenseMatrix" where
  "dm_of_fun h w f = \<lparr>Height = h, Width = w, data = map (\<lambda>k. f (k mod h) (k div h)) [0..<h * w]\<rparr>"

definition dm_zero :: "nat \<Rightarrow> nat \<Rightarrow> DenseMatrix" where
  "dm_zero h w = \<lparr>Height = h, Width = w, data = replicate (h * w) 0\<rparr>"

definition DenseMatrix_Mult :: "DenseMatrix \<Rightarrow> Vector \<Rightarrow> Vector" where
  "DenseMatrix_Mult A x = map (\<lambda>i. \<Sum>j\<leftarrow>[0..<Width A]. Elem A i j * x ! j) [0..<Height A]"

definition DenseMatrix_Transpose :: "DenseMatrix \<Rightarrow> DenseMatrix" where
  "DenseMatrix_Transpose A = dm_of_fun (Width A) (Height A) (\<lambda>i j. Elem A j i)"

definition mfem_Mult :: "DenseMatrix \<Rightarrow> DenseMatrix \<Rightarrow> DenseMatrix" where
  "mfem_Mult A B = dm_of_fun (Height A) (Width B) (\<lambda>i j. \<Sum>k\<leftarrow>[0..<Width A]. Elem A i k * Elem B k j)"

definition mfem_MultAtB :: "DenseMatrix \<Rightarrow> DenseMatrix \<Rightarrow> DenseMatrix" where
  "mfem_MultAtB A B = dm_of_fun (Width A) (Width B) (\<lambda>i j. \<Sum>k\<leftarrow>[0..<Height A]. Elem A k i * Elem B k j)"

definition CopyMN :: "DenseMatrix \<Rightarrow> DenseMatrix \<Rightarrow> nat \<Rightarrow> nat \<Rightarrow> DenseMatrix" where
  "CopyMN M A row_offset col_offset =
     dm_of_fun (Height M) (Width M)
       (\<lambda>i j. if row_offset \<le> i \<and> i < row_offset + Height A \<and>
                 col_offset \<le> j \<and> j < col_offset + Width A
              then Elem A (i - row_offset) (j - col_offset) else Elem M i j)"

definition AddMultVWt :: "Vector \<Rightarrow> Vector \<Rightarrow> DenseMatrix \<Rightarrow> DenseMatrix" where
  "AddMultVWt v w VWt = dm_of_fun (Height VWt) (Width VWt) (\<lambda>i j. Elem VWt i j + v ! i * w ! j)"

text \<open>
  A matrix laid over a stretch of a flat array, as \<open>DenseMatrix(&R[off], h, w)\<close>, and the
  write through such a view.
\<close>

definition view :: "Vector \<Rightarrow> nat \<Rightarrow> nat \<Rightarrow> nat \<Rightarrow> DenseMatrix" where
  "view arr off h w = \<lparr>Height = h, Width = w, data = take (h * w) (drop off arr)\<rparr>"

definition write_at :: "Vector \<Rightarrow> nat \<Rightarrow> Vector \<Rightarrow> Vector" where
  "write_at arr off vals = take off arr @ vals @ drop (off + length vals) arr"

section \<open>Finite elements, spaces and the coarse-fine table\<close>

datatype Geometry =
  INVALID | POINT | SEGMENT | TRIANGLE | SQUARE | TETRAHEDRON | CUBE | PRISM | PYRAMID

record IntegrationPoint =
  ip_x :: real
  ip_y :: real
  ip_z :: real
  ip_weight :: real

record FiniteElement =
  GetDof :: nat
  GetOrder :: int
  CalcShape :: "IntegrationPoint \<Rightarrow> Vector"

text \<open>\<open>Weight\<close> is the Jacobian weight at the point given to \<open>SetIntPoint\<close>.\<close>

record ElementTransformation =
  OrderW :: int
  Weight :: "IntegrationPoint \<Rightarrow> real"

record DofTransformation =
  TransformPrimal :: "Vector \<Rightarrow> Vector"
  InvTransformPrimal :: "Vector \<Rightarrow> Vector"
  TransformDual :: "Vector \<Rightarrow> Vector"
  InvTransformDual :: "Vector \<Rightarrow> Vector"

text \<open>
  What the transfer classes consume from a \<open>FiniteElementSpace\<close> and its mesh.
  \<open>GetElementDofs i\<close> is the DOF list of element \<open>i\<close> and \<open>GetElementDofTrans i\<close> the
  transformation returned with it (\<open>None\<close> is the null pointer). \<open>GetVDofs vd\<close> lists the
  vector DOFs of component \<open>vd\<close>. Of the restriction matrix only the sparsity pattern is
  used: for each row the list of its columns.
\<close>

record FiniteElementSpace =
  Dimension :: int
  GetNE :: nat
  GetVDim :: nat
  GetNDofs :: nat
  GetVSize :: nat
  GetTrueVSize :: nat
  IsVariableOrder :: bool
  GetFE :: "nat \<Rightarrow> FiniteElement"
  GetElementBaseGeometry :: "nat \<Rightarrow> Geometry"
  GetElementTransformation :: "nat \<Rightarrow> ElementTransformation"
  GetElementDofs :: "nat \<Rightarrow> int list"
  GetElementDofTrans :: "nat \<Rightarrow> DofTransformation option"
  GetElementVDofs :: "nat \<Rightarrow> int list"
  DofsToVDofs :: "nat \<Rightarrow> int list \<Rightarrow> int list"
  GetVDofs :: "nat \<Rightarrow> int list"
  GetRestrictionOperator :: "Operator option"
  GetProlongationMatrix :: "Operator option"
  GetRestrictionMatrix :: "nat list list option"

record Embedding =
  parent :: nat
  matrix :: nat

record CoarseFineTransformations =
  embeddings :: "Embedding list"
  point_matrices :: "Geometry \<Rightarrow> nat \<Rightarrow> DenseMatrix"

text \<open>
  The numerical services of the external collaborators: the quadrature table
  \<open>IntRules.Get\<close>, the map of \<open>IntegrationPointTransformation\<close> for a geometry and a point
  matrix, the element mass matrix of \<open>MassIntegrator\<close>, \<open>DenseMatrixInverse\<close>, and the local
  transfer matrix \<open>h_fe->GetTransferMatrix(l_fe, T, .)\<close> for the identity transformation
  \<open>T\<close>, as a function of the fine and the coarse element.
\<close>

record Numerics =
  IntRules_Get :: "Geometry \<Rightarrow> int \<Rightarrow> IntegrationPoint list"
  ip_tr_Transform :: "Geometry \<Rightarrow> DenseMatrix \<Rightarrow> IntegrationPoint \<Rightarrow> IntegrationPoint"
  AssembleElementMatrix :: "FiniteElement \<Rightarrow> ElementTransformation \<Rightarrow> DenseMatrix"
  GetInverseMatrix :: "DenseMatrix \<Rightarrow> DenseMatrix"
  GetTransferMatrix :: "FiniteElement \<Rightarrow> FiniteElement \<Rightarrow> DenseMatrix"

section \<open>L2Projection: the mixed mass matrix\<close>

text \<open>
  \<open>ElemMixedMass\<close>: \<open>ip_tr\<close> is the map of the \<open>IntegrationPointTransformation\<close> as its
  caller has set it, \<open>M_mixed_el\<close> the output matrix, whose old entries are cleared.
\<close>

definition ElemMixedMass ::
  "Numerics \<Rightarrow> Geometry \<Rightarrow> FiniteElement \<Rightarrow> FiniteElement \<Rightarrow> ElementTransformation \<Rightarrow>
     (IntegrationPoint \<Rightarrow> IntegrationPoint) \<Rightarrow> DenseMatrix \<Rightarrow> DenseMatrix" where
  "ElemMixedMass nm geom fe_ho fe_lor el_tr ip_tr M_mixed_el =
     (let order = GetOrder fe_lor + GetOrder fe_ho + OrderW el_tr;
          ir = IntRules_Get nm geom order
      in fold (\<lambda>ip_lor M.
                 let ip_ho = ip_tr ip_lor;
                     shape_lor = CalcShape fe_lor ip_lor;
                     shape_ho = CalcShape fe_ho ip_ho;
                     w = Weight el_tr ip_lor * ip_weight ip_lor
                 in AddMultVWt (map (\<lambda>s. s * w) shape_lor) shape_ho M)
           ir (dm_zero (Height M_mixed_el) (Width M_mixed_el)))"

section \<open>L2ProjectionL2Space\<close>

text \<open>
  \<open>l2_R\<close> and \<open>l2_P\<close> are the members \<open>R\<close> and \<open>P\<close>: flat arrays holding one dense
  matrix per coarse element, the one of element \<open>iho\<close> starting at \<open>offsets[iho]\<close>.
\<close>

record L2ProjectionL2Space =
  fes_ho :: FiniteElementSpace
  fes_lor :: FiniteElementSpace
  ho2lor :: "nat list list"
  offsets :: "nat list"
  l2_R :: Vector
  l2_P :: Vector

definition BuildHo2Lor :: "nat \<Rightarrow> nat \<Rightarrow> CoarseFineTransformations \<Rightarrow> nat list list" where
  "BuildHo2Lor nel_ho nel_lor cf_tr =
     map (\<lambda>iho. filter (\<lambda>ilor. parent (embeddings cf_tr ! ilor) = iho) [0..<nel_lor]) [0..<nel_ho]"

definition build_offsets ::
  "FiniteElementSpace \<Rightarrow> FiniteElementSpace \<Rightarrow> nat list list \<Rightarrow> nat \<Rightarrow> nat list" where
  "build_offsets fho flor h2l nel_ho =
     fold (\<lambda>iho offs.
             let nref = length (h2l ! iho);
                 fe_ho = GetFE fho iho;
                 fe_lor = GetFE flor (h2l ! iho ! 0)
             in offs @ [offs ! iho + GetDof fe_ho * GetDof fe_lor * nref])
       [0..<nel_ho] [0]"

text \<open>
  The call of \<open>ElemMixedMass\<close> as the constructors make it for the coarse element \<open>iho\<close>
  and the fine element \<open>ilor\<close> inside it: the fine basis is the one of the first fine
  element \<open>lor0\<close> of the patch, the transformation is the one of \<open>ilor\<close> in the fine space,
  and the embedding comes from the coarse-fine table.
\<close>

definition patch_ElemMixedMass ::
  "Numerics \<Rightarrow> CoarseFineTransformations \<Rightarrow> FiniteElementSpace \<Rightarrow> FiniteElementSpace \<Rightarrow>
     nat \<Rightarrow> nat \<Rightarrow> nat \<Rightarrow> DenseMatrix" where
  "patch_ElemMixedMass nm cf_tr fho flor iho lor0 ilor =
     (let geom = GetElementBaseGeometry fho iho;
          fe_ho = GetFE fho iho;
          fe_lor = GetFE flor lor0;
          pmats = point_matrices cf_tr geom;
          el_tr = GetElementTransformation flor ilor;
          ip_tr = ip_tr_Transform nm geom (pmats (matrix (embeddings cf_tr ! ilor)))
      in ElemMixedMass nm geom fe_ho fe_lor el_tr ip_tr (dm_zero (GetDof fe_lor) (GetDof fe_ho)))"

text \<open>
  One coarse element of the constructor's main loop: the patch matrices \<open>R_iho\<close> and
  \<open>P_iho\<close> (the latter is stored only when \<open>build_P\<close> holds). The inner loop carries
  \<open>(M_lor, Minv_lor, M_mixed)\<close>.
\<close>

definition L2_patch ::
  "Numerics \<Rightarrow> CoarseFineTransformations \<Rightarrow> FiniteElementSpace \<Rightarrow> FiniteElementSpace \<Rightarrow>
     nat list \<Rightarrow> nat \<Rightarrow> DenseMatrix \<times> DenseMatrix" where
  "L2_patch nm cf_tr fho flor lor_els iho =
     (let nref = length lor_els;
          fe_lor = GetFE flor (lor_els ! 0);
          ndof_ho = GetDof (GetFE fho iho);
          ndof_lor = GetDof fe_lor;
          (M_lor, Minv_lor, M_mixed) =
            fold (\<lambda>iref (M_lor, Minv_lor, M_mixed).
                    let ilor = lor_els ! iref;
                        el_tr = GetElementTransformation flor ilor;
                        M_lor_el = AssembleElementMatrix nm fe_lor el_tr;
                        M_lor' = CopyMN M_lor M_lor_el (iref * ndof_lor) (iref * ndof_lor);
                        Minv_lor' = CopyMN Minv_lor (GetInverseMatrix nm M_lor_el)
                                      (iref * ndof_lor) (iref * ndof_lor);
                        M_mixed_el = patch_ElemMixedMass nm cf_tr fho flor iho (lor_els ! 0) ilor
                    in (M_lor', Minv_lor', CopyMN M_mixed M_mixed_el (iref * ndof_lor) 0))
              [0..<nref]
              (dm_zero (ndof_lor * nref) (ndof_lor * nref),
               dm_zero (ndof_lor * nref) (ndof_lor * nref),
               dm_zero (ndof_lor * nref) ndof_ho);
          R_iho = mfem_Mult Minv_lor M_mixed;
          RtMlor = mfem_MultAtB R_iho M_lor;
          RtMlorR = mfem_Mult RtMlor R_iho;
          P_iho = mfem_Mult (GetInverseMatrix nm RtMlorR) RtMlor
      in (R_iho, P_iho))"

definition L2ProjectionL2Space_ctor ::
  "Numerics \<Rightarrow> CoarseFineTransformations \<Rightarrow> FiniteElementSpace \<Rightarrow> FiniteElementSpace \<Rightarrow>
     L2ProjectionL2Space" where
  "L2ProjectionL2Space_ctor nm cf_tr fho flor =
     (let nel_ho = GetNE fho;
          nel_lor = GetNE flor;
          build_P = (GetTrueVSize flor \<ge> GetTrueVSize fho)
      in if nel_ho = 0
         then \<lparr>fes_ho = fho, fes_lor = flor, ho2lor = [], offsets = [],
                l2_R = [], l2_P = []\<rparr>
         else
           (let h2l = BuildHo2Lor nel_ho nel_lor cf_tr;
                offs = build_offsets fho flor h2l nel_ho;
                R0 = replicate (offs ! nel_ho) 0;
                P0 = (if build_P then replicate (offs ! nel_ho) 0 else []);
                (R1, P1) =
                  fold (\<lambda>iho (Rv, Pv).
                          let (R_iho, P_iho) = L2_patch nm cf_tr fho flor (h2l ! iho) iho
                          in (write_at Rv (offs ! iho) (data R_iho),
                              if build_P then write_at Pv (offs ! iho) (data P_iho) else Pv))
                    [0..<nel_ho] (R0, P0)
            in \<lparr>fes_ho = fho, fes_lor = flor, ho2lor = h2l, offsets = offs,
                 l2_R = R1, l2_P = P1\<rparr>))"

text \<open>The loop "Extract the LOR DOFs" filling \<open>xel_mat\<close>, and its mirror image scattering \<open>yel_mat\<close>.\<close>

definition extract_lor :: "L2ProjectionL2Space \<Rightarrow> Vector \<Rightarrow> nat \<Rightarrow> nat \<Rightarrow> DenseMatrix" where
  "extract_lor op x iho ndof_lor =
     (let nref = length (ho2lor op ! iho);
          vdim = GetVDim (fes_ho op);
          h = ndof_lor * nref
      in \<lparr>Height = h, Width = vdim,
           data = fold (\<lambda>iref d. fold (\<lambda>vd d.
                          let ilor = ho2lor op ! iho ! iref;
                              vdofs = DofsToVDofs (fes_lor op) vd (GetElementDofs (fes_lor op) ilor)
                          in write_at d (iref * ndof_lor + vd * h) (GetSubVector x vdofs))
                        [0..<vdim] d)
                    [0..<nref] (replicate (h * vdim) 0)\<rparr>)"

definition place_lor :: "L2ProjectionL2Space \<Rightarrow> DenseMatrix \<Rightarrow> nat \<Rightarrow> nat \<Rightarrow> Vector \<Rightarrow> Vector" where
  "place_lor op yel_mat iho ndof_lor y =
     (let nref = length (ho2lor op ! iho);
          vdim = GetVDim (fes_ho op)
      in fold (\<lambda>iref y. fold (\<lambda>vd y.
                 let ilor = ho2lor op ! iho ! iref;
                     vdofs = DofsToVDofs (fes_lor op) vd (GetElementDofs (fes_lor op) ilor)
                 in SetSubVector y vdofs (drop (iref * ndof_lor + vd * Height yel_mat) (data yel_mat)))
               [0..<vdim] y)
           [0..<nref] y)"

definition L2ProjectionL2Space_Prolongate ::
  "L2ProjectionL2Space \<Rightarrow> Vector \<Rightarrow> Vector \<Rightarrow> error + Vector" where
  "L2ProjectionL2Space_Prolongate op x y =
     (if GetNE (fes_ho op) = 0 then Inr y
      else if \<not> length (l2_P op) > 0 then Inl Unsupported
      else Inr (fold (\<lambda>iho y.
                  let nref = length (ho2lor op ! iho);
                      ndof_ho = GetDof (GetFE (fes_ho op) iho);
                      ndof_lor = GetDof (GetFE (fes_lor op) (ho2lor op ! iho ! 0));
                      P_iho = view (l2_P op) (offsets op ! iho) ndof_ho (ndof_lor * nref);
                      xel_mat = extract_lor op x iho ndof_lor;
                      yel_mat = mfem_Mult P_iho xel_mat
                  in AddElementVector y (GetElementVDofs (fes_ho op) iho) (data yel_mat))
                [0..<GetNE (fes_ho op)] (map (\<lambda>_. 0) y)))"

definition L2ProjectionL2Space_ProlongateTranspose ::
  "L2ProjectionL2Space \<Rightarrow> Vector \<Rightarrow> Vector \<Rightarrow> error + Vector" where
  "L2ProjectionL2Space_ProlongateTranspose op x y =
     (if GetNE (fes_ho op) = 0 then Inr y
      else if \<not> length (l2_P op) > 0 then Inl Unsupported
      else Inr (fold (\<lambda>iho y.
                  let nref = length (ho2lor op ! iho);
                      ndof_ho = GetDof (GetFE (fes_ho op) iho);
                      ndof_lor = GetDof (GetFE (fes_lor op) (ho2lor op ! iho ! 0));
                      P_iho = view (l2_P op) (offsets op ! iho) ndof_ho (ndof_lor * nref);
                      xel_mat = \<lparr>Height = ndof_ho, Width = GetVDim (fes_ho op),
                                 data = GetSubVector x (GetElementVDofs (fes_ho op) iho)\<rparr>;
                      yel_mat = mfem_MultAtB P_iho xel_mat
                  in place_lor op yel_mat iho ndof_lor y)
                [0..<GetNE (fes_ho op)] y))"

section \<open>L2ProjectionH1Space\<close>

text \<open>
  The settings of the conjugate-gradient solver. The solver itself is an external
  collaborator: wherever it runs it is a function from the settings, the right-hand side
  and the starting vector to the last iterate and the flag telling whether it converged.
\<close>

record CGSolver =
  print_level :: int
  max_iter :: int
  rel_tol :: real
  abs_tol :: real
  prec :: "Operator option"
  oper :: "Operator option"

type_synonym cg_run = "CGSolver \<Rightarrow> Vector \<Rightarrow> Vector \<Rightarrow> Vector \<times> bool"

text \<open>\<open>h1_R\<close> and \<open>h1_M_LH\<close> are the members \<open>R\<close> and \<open>M_LH\<close>.\<close>

record L2ProjectionH1Space =
  h1_fes_ho :: FiniteElementSpace
  h1_fes_lor :: FiniteElementSpace
  h1_R :: Operator
  h1_M_LH :: Operator
  RTxM_LH :: Operator
  precon :: Operator
  pcg :: CGSolver

definition SetupPCG :: "L2ProjectionH1Space \<Rightarrow> L2ProjectionH1Space" where
  "SetupPCG op =
     op\<lparr>pcg := (pcg op)\<lparr>print_level := 0, max_iter := 1000,
                           rel_tol := 1 / 10 ^ 13, abs_tol := 1 / 10 ^ 13,
                           prec := Some (precon op), oper := Some (RTxM_LH op)\<rparr>\<rparr>"

definition SetRelTol :: "L2ProjectionH1Space \<Rightarrow> real \<Rightarrow> L2ProjectionH1Space" where
  "SetRelTol op p_rtol = op\<lparr>pcg := (pcg op)\<lparr>rel_tol := p_rtol\<rparr>\<rparr>"

definition SetAbsTol :: "L2ProjectionH1Space \<Rightarrow> real \<Rightarrow> L2ProjectionH1Space" where
  "SetAbsTol op p_atol = op\<lparr>pcg := (pcg op)\<lparr>abs_tol := p_atol\<rparr>\<rparr>"

definition op_compose :: "Operator \<Rightarrow> Operator \<Rightarrow> Operator" where
  "op_compose A B =
     \<lparr>height = height A, width = width B, Mult = (\<lambda>x. Mult A (Mult B x)),
      MultTranspose = (\<lambda>x. MultTranspose B (MultTranspose A x))\<rparr>"

definition op_transpose :: "Operator \<Rightarrow> Operator" where
  "op_transpose A = \<lparr>height = width A, width = height A, Mult = MultTranspose A, MultTranspose = Mult A\<rparr>"

text \<open>
  The serial constructor. \<open>r_and_mlh\<close> is the pair computed by \<open>ComputeSparseRAndM_LH\<close>,
  \<open>P_ho\<close> and \<open>P_lor\<close> are the conforming prolongations of the scalar spaces, \<open>DSmoother\<close>
  builds the preconditioner and \<open>pcg0\<close> is the solver as its own constructor leaves it.
\<close>

definition L2ProjectionH1Space_ctor ::
  "FiniteElementSpace \<Rightarrow> FiniteElementSpace \<Rightarrow> Operator \<times> Operator \<Rightarrow>
     Operator option \<Rightarrow> Operator option \<Rightarrow> (Operator \<Rightarrow> Operator) \<Rightarrow> CGSolver \<Rightarrow>
     L2ProjectionH1Space" where
  "L2ProjectionH1Space_ctor fho flor r_and_mlh P_ho P_lor DSmoother pcg0 =
     (let (R_mat, M_LH_mat) =
            (case (P_ho, P_lor) of
               (Some ph, Some pl) \<Rightarrow>
                 (op_compose (op_transpose pl) (op_compose (fst r_and_mlh) ph),
                  op_compose (op_transpose pl) (op_compose (snd r_and_mlh) ph))
             | (Some ph, None) \<Rightarrow>
                 (op_compose (fst r_and_mlh) ph, op_compose (snd r_and_mlh) ph)
             | (None, Some pl) \<Rightarrow>
                 (op_compose pl (fst r_and_mlh), op_compose pl (snd r_and_mlh))
             | (None, None) \<Rightarrow> r_and_mlh);
          RTxM_LH_mat = op_compose (op_transpose R_mat) M_LH_mat
      in SetupPCG \<lparr>h1_fes_ho = fho, h1_fes_lor = flor, h1_R = R_mat, h1_M_LH = M_LH_mat,
                   RTxM_LH = RTxM_LH_mat, precon = DSmoother RTxM_LH_mat, pcg = pcg0\<rparr>)"

text \<open>
  Modelled from the spec: the marker/list round trip through the restriction operator
  (\<open>ListToMarker\<close>, \<open>SparseMatrix::BooleanMult\<close> and \<open>MarkerToList\<close> are not among the
  sources). A marker is an array over the DOFs, nonzero where marked.
\<close>

definition ListToMarker :: "int list \<Rightarrow> nat \<Rightarrow> int list" where
  "ListToMarker lst marker_size = fold (\<lambda>j m. m[nat j := -1]) lst (replicate marker_size 0)"

definition BooleanMult :: "nat list list \<Rightarrow> int list \<Rightarrow> int list" where
  "BooleanMult rows xm = map (\<lambda>cols. if list_ex (\<lambda>j. xm ! j \<noteq> 0) cols then 1 else 0) rows"

definition MarkerToList :: "int list \<Rightarrow> int list" where
  "MarkerToList marker = map int (filter (\<lambda>i. marker ! i \<noteq> 0) [0..<length marker])"

definition GetTDofs :: "FiniteElementSpace \<Rightarrow> Vector \<Rightarrow> Vector" where
  "GetTDofs fes x = (case GetRestrictionOperator fes of Some res \<Rightarrow> Mult res x | None \<Rightarrow> x)"

definition SetFromTDofs :: "FiniteElementSpace \<Rightarrow> Vector \<Rightarrow> Vector" where
  "SetFromTDofs fes X = (case GetProlongationMatrix fes of Some pm \<Rightarrow> Mult pm X | None \<Rightarrow> X)"

definition GetTDofsTranspose :: "FiniteElementSpace \<Rightarrow> Vector \<Rightarrow> Vector" where
  "GetTDofsTranspose fes x =
     (case GetProlongationMatrix fes of Some pm \<Rightarrow> MultTranspose pm x | None \<Rightarrow> x)"

definition SetFromTDofsTranspose :: "FiniteElementSpace \<Rightarrow> Vector \<Rightarrow> Vector" where
  "SetFromTDofsTranspose fes X =
     (case GetRestrictionOperator fes of Some r_op \<Rightarrow> MultTranspose r_op X | None \<Rightarrow> X)"

definition TDofsListByVDim :: "FiniteElementSpace \<Rightarrow> nat \<Rightarrow> int list" where
  "TDofsListByVDim fes vdim =
     (case GetRestrictionMatrix fes of
        Some R_mat \<Rightarrow>
          (let x_vdofs_list = GetVDofs fes vdim;
               x_vdofs_marker = ListToMarker x_vdofs_list (GetVSize fes);
               X_vdofs_marker = BooleanMult R_mat x_vdofs_marker
           in MarkerToList X_vdofs_marker)
      | None \<Rightarrow> GetVDofs fes vdim)"

text \<open>
  \<open>Prolongate\<close> and \<open>ProlongateTranspose\<close> return \<open>void\<close>: the result is the vector \<open>y\<close>
  alone. The flag of the solver run is dropped where \<open>pcg.Mult\<close> is called.
\<close>

definition L2ProjectionH1Space_Prolongate :: "cg_run \<Rightarrow> L2ProjectionH1Space \<Rightarrow> Vector \<Rightarrow> Vector" where
  "L2ProjectionH1Space_Prolongate cg op x =
     (let X = GetTDofs (h1_fes_lor op) x;
          Y = fold (\<lambda>d Y.
                 let X_dim = GetSubVector X (TDofsListByVDim (h1_fes_lor op) d);
                     Xbar = MultTranspose (h1_M_LH op) X_dim;
                     Y_dim = fst (cg (pcg op) Xbar (replicate (height (RTxM_LH op)) 0))
                 in SetSubVector Y (TDofsListByVDim (h1_fes_ho op) d) Y_dim)
               [0..<GetVDim (h1_fes_ho op)] (replicate (GetTrueVSize (h1_fes_ho op)) 0)
      in SetFromTDofs (h1_fes_ho op) Y)"

definition L2ProjectionH1Space_ProlongateTranspose ::
  "cg_run \<Rightarrow> L2ProjectionH1Space \<Rightarrow> Vector \<Rightarrow> Vector" where
  "L2ProjectionH1Space_ProlongateTranspose cg op x =
     (let X = GetTDofsTranspose (h1_fes_ho op) x;
          Y = fold (\<lambda>d Y.
                 let X_dim = GetSubVector X (TDofsListByVDim (h1_fes_ho op) d);
                     Xbar = fst (cg (pcg op) X_dim (replicate (height (RTxM_LH op)) 0));
                     Y_dim = Mult (h1_M_LH op) Xbar
                 in SetSubVector Y (TDofsListByVDim (h1_fes_lor op) d) Y_dim)
               [0..<GetVDim (h1_fes_ho op)] (replicate (GetTrueVSize (h1_fes_lor op)) 0)
      in SetFromTDofsTranspose (h1_fes_lor op) Y)"

text \<open>A sequence of calls of the two setters the class offers.\<close>

datatype tol_call = CallSetRelTol real | CallSetAbsTol real

fun apply_call :: "tol_call \<Rightarrow> L2ProjectionH1Space \<Rightarrow> L2ProjectionH1Space" where
  "apply_call (CallSetRelTol r) op = SetRelTol op r"
| "apply_call (CallSetAbsTol a) op = SetAbsTol op a"

section \<open>TensorProductPRefinementTransferOperator\<close>

text \<open>
  The kernels of namespace \<open>TransferKernels\<close>. \<open>Reshape\<close> lays a multi-index over a flat
  array with the first index running fastest.
\<close>

definition idx2 :: "nat \<Rightarrow> nat \<Rightarrow> nat \<Rightarrow> nat \<Rightarrow> nat" where
  "idx2 n a b e = a + n * (b + n * e)"

definition idx3 :: "nat \<Rightarrow> nat \<Rightarrow> nat \<Rightarrow> nat \<Rightarrow> nat \<Rightarrow> nat" where
  "idx3 n a b c e = a + n * (b + n * (c + n * e))"

text \<open>The innermost loops: \<open>sol[q] += A(q, d) * s\<close> for all \<open>q\<close>, with \<open>A\<close> of leading size \<open>n\<close>.\<close>

definition axpy_col :: "nat \<Rightarrow> real list \<Rightarrow> nat \<Rightarrow> nat \<Rightarrow> real \<Rightarrow> Vector \<Rightarrow> Vector" where
  "axpy_col n A nq d s sol = fold (\<lambda>q sol. sol[q := sol ! q + A ! (q + n * d) * s]) [0..<nq] sol"

definition Prolongation2D ::
  "nat \<Rightarrow> nat \<Rightarrow> nat \<Rightarrow> Vector \<Rightarrow> Vector \<Rightarrow> real list \<Rightarrow> Vector \<Rightarrow> Vector" where
  "Prolongation2D NE D1D Q1D localL localH B msk =
     fold (\<lambda>e yv.
        let yv1 =
          fold (\<lambda>dy yv.
             let sol_x = fold (\<lambda>dx sol. axpy_col Q1D B Q1D dx (localL ! idx2 D1D dx dy e) sol)
                           [0..<D1D] (replicate Q1D 0)
             in fold (\<lambda>qy yv.
                  let d2q = B ! (qy + Q1D * dy)
                  in fold (\<lambda>qx yv. yv[idx2 Q1D qx qy e := yv ! idx2 Q1D qx qy e + d2q * sol_x ! qx])
                       [0..<Q1D] yv)
                  [0..<Q1D] yv)
            [0..<D1D] yv
        in fold (\<lambda>qy yv.
             fold (\<lambda>qx yv. yv[idx2 Q1D qx qy e := yv ! idx2 Q1D qx qy e * msk ! idx2 Q1D qx qy e])
               [0..<Q1D] yv)
             [0..<Q1D] yv1)
       [0..<NE] (map (\<lambda>_. 0) localH)"

definition Prolongation3D ::
  "nat \<Rightarrow> nat \<Rightarrow> nat \<Rightarrow> Vector \<Rightarrow> Vector \<Rightarrow> real list \<Rightarrow> Vector \<Rightarrow> Vector" where
  "Prolongation3D NE D1D Q1D localL localH B msk =
     fold (\<lambda>e yv.
        let yv1 =
          fold (\<lambda>dz yv.
             let sol_xy =
               fold (\<lambda>dy sol_xy.
                  let sol_x = fold (\<lambda>dx sol. axpy_col Q1D B Q1D dx (localL ! idx3 D1D dx dy dz e) sol)
                                [0..<D1D] (replicate Q1D 0)
                  in fold (\<lambda>qy sol_xy.
                       let wy = B ! (qy + Q1D * dy)
                       in sol_xy[qy := fold (\<lambda>qx row. row[qx := row ! qx + wy * sol_x ! qx])
                                          [0..<Q1D] (sol_xy ! qy)])
                       [0..<Q1D] sol_xy)
                 [0..<D1D] (replicate Q1D (replicate Q1D 0))
             in fold (\<lambda>qz yv.
                  let wz = B ! (qz + Q1D * dz)
                  in fold (\<lambda>qy yv.
                       fold (\<lambda>qx yv. yv[idx3 Q1D qx qy qz e :=
                                          yv ! idx3 Q1D qx qy qz e + wz * sol_xy ! qy ! qx])
                         [0..<Q1D] yv)
                       [0..<Q1D] yv)
                  [0..<Q1D] yv)
            [0..<D1D] yv
        in fold (\<lambda>qz yv.
             fold (\<lambda>qy yv.
               fold (\<lambda>qx yv. yv[idx3 Q1D qx qy qz e :=
                                  yv ! idx3 Q1D qx qy qz e * msk ! idx3 Q1D qx qy qz e])
                 [0..<Q1D] yv)
               [0..<Q1D] yv)
             [0..<Q1D] yv1)
       [0..<NE] (map (\<lambda>_. 0) localH)"

definition Restriction2D ::
  "nat \<Rightarrow> nat \<Rightarrow> nat \<Rightarrow> Vector \<Rightarrow> Vector \<Rightarrow> real list \<Rightarrow> Vector \<Rightarrow> Vector" where
  "Restriction2D NE D1D Q1D localH localL Bt msk =
     fold (\<lambda>e yv.
        fold (\<lambda>qy yv.
           let sol_x = fold (\<lambda>qx sol.
                          axpy_col D1D Bt D1D qx (msk ! idx2 Q1D qx qy e * localH ! idx2 Q1D qx qy e) sol)
                         [0..<Q1D] (replicate D1D 0)
           in fold (\<lambda>dy yv.
                let q2d = Bt ! (dy + D1D * qy)
                in fold (\<lambda>dx yv. yv[idx2 D1D dx dy e := yv ! idx2 D1D dx dy e + q2d * sol_x ! dx])
                     [0..<D1D] yv)
                [0..<D1D] yv)
          [0..<Q1D] yv)
       [0..<NE] (map (\<lambda>_. 0) localL)"

definition Restriction3D ::
  "nat \<Rightarrow> nat \<Rightarrow> nat \<Rightarrow> Vector \<Rightarrow> Vector \<Rightarrow> real list \<Rightarrow> Vector \<Rightarrow> Vector" where
  "Restriction3D NE D1D Q1D localH localL Bt msk =
     fold (\<lambda>e yv.
        fold (\<lambda>qz yv.
           let sol_xy =
             fold (\<lambda>qy sol_xy.
                let sol_x = fold (\<lambda>qx sol.
                               axpy_col D1D Bt D1D qx
                                 (msk ! idx3 Q1D qx qy qz e * localH ! idx3 Q1D qx qy qz e) sol)
                              [0..<Q1D] (replicate D1D 0)
                in fold (\<lambda>dy sol_xy.
                     let wy = Bt ! (dy + D1D * qy)
                     in sol_xy[dy := fold (\<lambda>dx row. row[dx := row ! dx + wy * sol_x ! dx])
                                        [0..<D1D] (sol_xy ! dy)])
                     [0..<D1D] sol_xy)
               [0..<Q1D] (replicate D1D (replicate D1D 0))
           in fold (\<lambda>dz yv.
                let wz = Bt ! (dz + D1D * qz)
                in fold (\<lambda>dy yv.
                     fold (\<lambda>dx yv. yv[idx3 D1D dx dy dz e :=
                                        yv ! idx3 D1D dx dy dz e + wz * sol_xy ! dy ! dx])
                       [0..<D1D] yv)
                     [0..<D1D] yv)
                [0..<D1D] yv)
          [0..<Q1D] yv)
       [0..<NE] (map (\<lambda>_. 0) localL)"

text \<open>
  What the constructor obtains from its collaborators: whether the first elements of the
  two spaces are tensor-basis elements, the 1D basis table (\<open>DofToQuad\<close>) of the coarse
  element at the fine nodes, the two lexicographic element restrictions (null when not
  available), whether the fine one is an \<open>ElementRestriction\<close>, and its boolean mask for a
  vector of a given size.
\<close>

record TensorProductInputs =
  l_is_TensorBasisElement :: bool
  h_is_TensorBasisElement :: bool
  maps_ndof :: nat
  maps_nqpt :: nat
  maps_B :: "real list"
  maps_Bt :: "real list"
  l_ElementRestriction :: "Operator option"
  h_ElementRestriction :: "Operator option"
  h_is_ElementRestriction :: bool
  h_BooleanMask :: "nat \<Rightarrow> Vector"

record TensorProductPRefinementTransferOperator =
  tp_lFESpace :: FiniteElementSpace
  tp_hFESpace :: FiniteElementSpace
  tp_dim :: int
  tp_NE :: nat
  tp_D1D :: nat
  tp_Q1D :: nat
  tp_B :: "real list"
  tp_Bt :: "real list"
  tp_msk :: Vector
  elem_restrict_lex_l :: "Operator option"
  elem_restrict_lex_h :: "Operator option"
  localL :: Vector
  localH :: Vector

definition TensorProductPRefinementTransferOperator_ctor ::
  "FiniteElementSpace \<Rightarrow> FiniteElementSpace \<Rightarrow> TensorProductInputs \<Rightarrow>
     error + TensorProductPRefinementTransferOperator" where
  "TensorProductPRefinementTransferOperator_ctor lfes hfes inp =
     (let early = \<lparr>tp_lFESpace = lfes, tp_hFESpace = hfes, tp_dim = Dimension lfes,
                    tp_NE = 0, tp_D1D = 0, tp_Q1D = 0, tp_B = [], tp_Bt = [], tp_msk = [],
                    elem_restrict_lex_l = None, elem_restrict_lex_h = None,
                    localL = [], localH = []\<rparr>
      in if GetNE lfes = 0 then Inr early
         else if \<not> l_is_TensorBasisElement inp then Inl VerifyFailed
         else if \<not> h_is_TensorBasisElement inp then Inl VerifyFailed
         else (case l_ElementRestriction inp of
                 None \<Rightarrow> Inl VerifyFailed
               | Some erl \<Rightarrow>
                  (case h_ElementRestriction inp of
                     None \<Rightarrow> Inl VerifyFailed
                   | Some erh \<Rightarrow>
                       if \<not> h_is_ElementRestriction inp then Inl VerifyFailed
                       else Inr (early\<lparr>tp_NE := GetNE lfes, tp_D1D := maps_ndof inp,
                                       tp_Q1D := maps_nqpt inp, tp_B := maps_B inp,
                                       tp_Bt := maps_Bt inp,
                                       elem_restrict_lex_l := Some erl,
                                       elem_restrict_lex_h := Some erh,
                                       localL := replicate (height erl) 0,
                                       localH := replicate (height erh) 0,
                                       tp_msk := h_BooleanMask inp (height erh)\<rparr>))))"

text \<open>
  \<open>Mult\<close> and \<open>MultTranspose\<close> take the output vector \<open>y\<close> as it is before the call. The
  abort in the last branch comes after the first element restriction has been applied.
\<close>

definition TensorProductPRefinementTransferOperator_Mult ::
  "TensorProductPRefinementTransferOperator \<Rightarrow> Vector \<Rightarrow> Vector \<Rightarrow> error + Vector" where
  "TensorProductPRefinementTransferOperator_Mult op x y =
     (if GetNE (tp_lFESpace op) = 0 then Inr y
      else (case (elem_restrict_lex_l op, elem_restrict_lex_h op) of
              (Some erl, Some erh) \<Rightarrow>
                (let lL = Mult erl x
                 in if tp_dim op = 2 then
                      Inr (MultTranspose erh
                             (Prolongation2D (tp_NE op) (tp_D1D op) (tp_Q1D op) lL (localH op)
                                (tp_B op) (tp_msk op)))
                    else if tp_dim op = 3 then
                      Inr (MultTranspose erh
                             (Prolongation3D (tp_NE op) (tp_D1D op) (tp_Q1D op) lL (localH op)
                                (tp_B op) (tp_msk op)))
                    else Inl (UnsupportedDimension (tp_dim op)))
            | _ \<Rightarrow> Inl NullPointer))"

definition TensorProductPRefinementTransferOperator_MultTranspose ::
  "TensorProductPRefinementTransferOperator \<Rightarrow> Vector \<Rightarrow> Vector \<Rightarrow> error + Vector" where
  "TensorProductPRefinementTransferOperator_MultTranspose op x y =
     (if GetNE (tp_lFESpace op) = 0 then Inr y
      else (case (elem_restrict_lex_l op, elem_restrict_lex_h op) of
              (Some erl, Some erh) \<Rightarrow>
                (let lH = Mult erh x
                 in if tp_dim op = 2 then
                      Inr (MultTranspose erl
                             (Restriction2D (tp_NE op) (tp_D1D op) (tp_Q1D op) lH (localL op)
                                (tp_Bt op) (tp_msk op)))
                    else if tp_dim op = 3 then
                      Inr (MultTranspose erl
                             (Restriction3D (tp_NE op) (tp_D1D op) (tp_Q1D op) lH (localL op)
                                (tp_Bt op) (tp_msk op)))
                    else Inl (UnsupportedDimension (tp_dim op)))
            | _ \<Rightarrow> Inl NullPointer))"

section \<open>PRefinementTransferOperator\<close>

record PRefinementTransferOperator =
  pr_lFESpace :: FiniteElementSpace
  pr_hFESpace :: FiniteElementSpace
  isvar_order :: bool


text \<open>
  The head of both element loops: the local matrix is fetched anew when the geometry of
  element \<open>i\<close> differs from the cached one or the orders vary, and kept otherwise. The
  pair is \<open>(cached_geom, loc_prol)\<close>.
\<close>

definition refresh_loc_prol ::
  "Numerics \<Rightarrow> PRefinementTransferOperator \<Rightarrow> nat \<Rightarrow> Geometry \<times> DenseMatrix \<Rightarrow> Geometry \<times> DenseMatrix" where
  "refresh_loc_prol nm op i c =
     (let geom = GetElementBaseGeometry (pr_hFESpace op) i
      in if geom \<noteq> fst c \<or> isvar_order op
         then (geom, GetTransferMatrix nm (GetFE (pr_hFESpace op) i) (GetFE (pr_lFESpace op) i))
         else c)"




text \<open>The loop that clears the entries of \<open>subX\<close> whose DOF is marked as processed.\<close>

definition zero_processed :: "bool list \<Rightarrow> int list \<Rightarrow> Vector \<Rightarrow> Vector" where
  "zero_processed processed h_dofs subX =
     fold (\<lambda>p sx. if processed ! DecodeDof (h_dofs ! p) then sx[p := 0] else sx)
       [0..<length h_dofs] subX"

definition mark_processed :: "int list \<Rightarrow> bool list \<Rightarrow> bool list" where
  "mark_processed h_dofs processed =
     fold (\<lambda>p pr. pr[DecodeDof (h_dofs ! p) := True]) [0..<length h_dofs] processed"



section \<open>The transpose of the p-refinement transfer, stated\<close>

text \<open>
  The inner product, the unit vectors and the sign of a signed DOF index.
\<close>

definition dot :: "Vector \<Rightarrow> Vector \<Rightarrow> real" where
  "dot u v = (\<Sum>k\<leftarrow>[0..<length u]. u ! k * v ! k)"


definition dof_sign :: "int \<Rightarrow> real" where
  "dof_sign j = (if j \<ge> 0 then 1 else -1)"


definition h_vdofs_of :: "PRefinementTransferOperator \<Rightarrow> nat \<Rightarrow> nat \<Rightarrow> int list" where
  "h_vdofs_of op i vd = DofsToVDofs (pr_hFESpace op) vd (GetElementDofs (pr_hFESpace op) i)"

definition l_vdofs_of :: "PRefinementTransferOperator \<Rightarrow> nat \<Rightarrow> nat \<Rightarrow> int list" where
  "l_vdofs_of op i vd = DofsToVDofs (pr_lFESpace op) vd (GetElementDofs (pr_lFESpace op) i)"

definition loc_prol_at :: "Numerics \<Rightarrow> PRefinementTransferOperator \<Rightarrow> nat \<Rightarrow> DenseMatrix" where
  "loc_prol_at nm op i =
     snd (fold (refresh_loc_prol nm op) [0..<Suc i] (INVALID, \<lparr>Height = 0, Width = 0, data = []\<rparr>))"




definition global_row :: "Numerics \<Rightarrow> PRefinementTransferOperator \<Rightarrow> nat \<times> nat \<times> nat \<Rightarrow> Vector" where
  "global_row nm op s =
     (let i = fst s; vd = fst (snd s); p = snd (snd s); A = loc_prol_at nm op i
      in AddElementVector (replicate (GetVSize (pr_lFESpace op)) 0) (l_vdofs_of op i vd)
           (map (\<lambda>q. dof_sign (h_vdofs_of op i vd ! p) * Elem A p q) [0..<Width A]))"





section \<open>BilinearForm: elimination and the full product\<close>

text \<open>
  Modelled from the spec: the global sparse operator (\<open>SparseMatrix\<close>, not among the
  sources) as its size and its entries, an entry outside the sparsity pattern being zero,
  with the products \<open>y = A x\<close> and \<open>y += A x\<close>.
\<close>

record SparseMatrix =
  sm_height :: nat
  sm_width :: nat
  entry :: "nat \<Rightarrow> nat \<Rightarrow> real"

definition SparseMatrix_new :: "nat \<Rightarrow> SparseMatrix" where
  "SparseMatrix_new n = \<lparr>sm_height = n, sm_width = n, entry = (\<lambda>i j. 0)\<rparr>"

definition SparseMatrix_Mult :: "SparseMatrix \<Rightarrow> Vector \<Rightarrow> Vector" where
  "SparseMatrix_Mult A x = map (\<lambda>i. \<Sum>j\<leftarrow>[0..<sm_width A]. entry A i j * x ! j) [0..<sm_height A]"

definition SparseMatrix_AddMult :: "SparseMatrix \<Rightarrow> Vector \<Rightarrow> Vector \<Rightarrow> Vector" where
  "SparseMatrix_AddMult A x y =
     map (\<lambda>i. y ! i + (\<Sum>j\<leftarrow>[0..<sm_width A]. entry A i j * x ! j)) [0..<sm_height A]"

datatype DiagonalPolicy = DIAG_ZERO | DIAG_ONE | DIAG_KEEP

text \<open>
  Modelled from the spec: the elimination of one row and column \<open>rc\<close> in matrix-split mode
  (\<open>SparseMatrix::EliminateRowCol\<close>, not among the sources). Row and column \<open>rc\<close> move into
  the companion matrix \<open>Ae\<close> and become zero in the live matrix, except the diagonal entry,
  which takes the value the policy gives; the companion receives what was taken away.
\<close>

definition diag_value :: "DiagonalPolicy \<Rightarrow> real \<Rightarrow> real" where
  "diag_value dpolicy a = (case dpolicy of DIAG_KEEP \<Rightarrow> a | DIAG_ONE \<Rightarrow> 1 | DIAG_ZERO \<Rightarrow> 0)"

definition EliminateRowCol ::
  "nat \<Rightarrow> DiagonalPolicy \<Rightarrow> SparseMatrix \<times> SparseMatrix \<Rightarrow> SparseMatrix \<times> SparseMatrix" where
  "EliminateRowCol rc dpolicy AAe =
     (let A = fst AAe; Ae = snd AAe;
          A' = A\<lparr>entry := (\<lambda>i j. if i = rc \<and> j = rc then diag_value dpolicy (entry A rc rc)
                                  else if i = rc \<or> j = rc then 0 else entry A i j)\<rparr>
      in (A', Ae\<lparr>entry := (\<lambda>i j. entry Ae i j + (entry A i j - entry A' i j))\<rparr>))"

text \<open>
  \<open>mat\<close> and \<open>mat_e\<close> are the members \<open>M\<close> and \<open>M\<^sub>e\<close> of the form (\<open>None\<close> is the null
  pointer) and \<open>bf_height\<close> its size.
\<close>

record BilinearForm =
  bf_height :: nat
  mat :: "SparseMatrix option"
  mat_e :: "SparseMatrix option"

text \<open>
  Modelled from the spec: \<open>EliminateVDofs(vdofs, dpolicy)\<close>, the matrix-split mode (its body
  is not among the sources). The companion is created empty on first use; each listed DOF,
  decoded from its signed form, is eliminated in turn. An unassembled form is an error.
\<close>

definition EliminateVDofs :: "BilinearForm \<Rightarrow> int list \<Rightarrow> DiagonalPolicy \<Rightarrow> error + BilinearForm" where
  "EliminateVDofs form vdofs dpolicy =
     (case mat form of
        None \<Rightarrow> Inl NullPointer
      | Some M \<Rightarrow>
          (let Me = (case mat_e form of None \<Rightarrow> SparseMatrix_new (bf_height form) | Some Me \<Rightarrow> Me);
               res = fold (\<lambda>vdof. EliminateRowCol (DecodeDof vdof) dpolicy) vdofs (M, Me)
           in Inr (form\<lparr>mat := Some (fst res), mat_e := Some (snd res)\<rparr>)))"

text \<open>\<open>FullMult\<close> and \<open>Mult\<close> of the form, from the header; a null matrix is a null dereference.\<close>

definition BilinearForm_Mult :: "BilinearForm \<Rightarrow> Vector \<Rightarrow> error + Vector" where
  "BilinearForm_Mult form x =
     (case mat form of None \<Rightarrow> Inl NullPointer | Some M \<Rightarrow> Inr (SparseMatrix_Mult M x))"

definition FullMult :: "BilinearForm \<Rightarrow> Vector \<Rightarrow> error + Vector" where
  "FullMult form x =
     (case mat form of
        None \<Rightarrow> Inl NullPointer
      | Some M \<Rightarrow>
          (case mat_e form of
             None \<Rightarrow> Inl NullPointer
           | Some Me \<Rightarrow> Inr (SparseMatrix_AddMult Me x (SparseMatrix_Mult M x))))"

text \<open>
  Well-formed patches: every coarse element has a fine element inside it, and the elements
  of both spaces have DOFs.
\<close>

definition patches_nonempty ::
  "CoarseFineTransformations \<Rightarrow> FiniteElementSpace \<Rightarrow> FiniteElementSpace \<Rightarrow> bool" where
  "patches_nonempty cf_tr fho flor =
     list_all (\<lambda>iho.
        let row = BuildHo2Lor (GetNE fho) (GetNE flor) cf_tr ! iho
        in 0 < length row \<and> 0 < GetDof (GetFE fho iho) \<and> 0 < GetDof (GetFE flor (row ! 0)))
       [0..<GetNE fho]"

section \<open>Concrete spaces used to exercise the statements\<close>

definition fe_const :: "nat \<Rightarrow> int \<Rightarrow> FiniteElement" where
  "fe_const n p = \<lparr>GetDof = n, GetOrder = p, CalcShape = (\<lambda>ip. replicate n 1)\<rparr>"

definition tr_unit :: ElementTransformation where
  "tr_unit = \<lparr>OrderW = 0, Weight = (\<lambda>ip. 1)\<rparr>"

text \<open>
  A scalar space of \<open>ne\<close> elements with \<open>n\<close> DOFs each, numbered element by element
  (no DOF is shared), and \<open>tv\<close> true DOFs.
\<close>

definition space_dg :: "nat \<Rightarrow> nat \<Rightarrow> nat \<Rightarrow> FiniteElementSpace" where
  "space_dg ne n tv =
     \<lparr>Dimension = 1, GetNE = ne, GetVDim = 1, GetNDofs = ne * n, GetVSize = ne * n, GetTrueVSize = tv,
      IsVariableOrder = False,
      GetFE = (\<lambda>i. fe_const n 0),
      GetElementBaseGeometry = (\<lambda>i. SEGMENT),
      GetElementTransformation = (\<lambda>i. tr_unit),
      GetElementDofs = (\<lambda>i. map int [i * n..<i * n + n]),
      GetElementDofTrans = (\<lambda>i. None),
      GetElementVDofs = (\<lambda>i. map int [i * n..<i * n + n]),
      DofsToVDofs = (\<lambda>vd dofs. dofs),
      GetVDofs = (\<lambda>vd. map int [0..<ne * n]),
      GetRestrictionOperator = None,
      GetProlongationMatrix = None,
      GetRestrictionMatrix = None\<rparr>"

definition cf_identity :: "nat \<Rightarrow> CoarseFineTransformations" where
  "cf_identity ne =
     \<lparr>embeddings = map (\<lambda>i. \<lparr>parent = i, matrix = 0\<rparr>) [0..<ne],
      point_matrices = (\<lambda>g k. dm_zero 1 2)\<rparr>"

text \<open>
  One-point quadrature of weight 1, identity matrices for mass and inverse, and the transfer
  matrix of all ones (each fine DOF takes the sum of the coarse values).
\<close>

definition nm_unit :: Numerics where
  "nm_unit =
     \<lparr>IntRules_Get = (\<lambda>g order. [\<lparr>ip_x = 0, ip_y = 0, ip_z = 0, ip_weight = 1\<rparr>]),
      ip_tr_Transform = (\<lambda>g pm ip. ip),
      AssembleElementMatrix = (\<lambda>fe tr. dm_of_fun (GetDof fe) (GetDof fe) (\<lambda>i j. if i = j then 1 else 0)),
      GetInverseMatrix = (\<lambda>A. A),
      GetTransferMatrix = (\<lambda>h_fe l_fe. dm_of_fun (GetDof h_fe) (GetDof l_fe) (\<lambda>i j. 1))\<rparr>"

definition op_id :: "nat \<Rightarrow> Operator" where
  "op_id n = \<lparr>height = n, width = n, Mult = (\<lambda>x. x), MultTranspose = (\<lambda>x. x)\<rparr>"

text \<open>A continuous-space projection between two one-element spaces, freshly constructed.\<close>

definition h1_example :: L2ProjectionH1Space where
  "h1_example =
     L2ProjectionH1Space_ctor (space_dg 1 1 1) (space_dg 1 1 1) (op_id 1, op_id 1) None None
       (\<lambda>A. A) \<lparr>print_level = -1, max_iter = 10, rel_tol = 0, abs_tol = 0, prec = None, oper = None\<rparr>"

definition tp_inputs_example :: TensorProductInputs where
  "tp_inputs_example =
     \<lparr>l_is_TensorBasisElement = True, h_is_TensorBasisElement = True,
      maps_ndof = 1, maps_nqpt = 1, maps_B = [1], maps_Bt = [1],
      l_ElementRestriction = Some (op_id 1), h_ElementRestriction = Some (op_id 1),
      h_is_ElementRestriction = True, h_BooleanMask = (\<lambda>n. replicate n 1)\<rparr>"

definition form_example :: BilinearForm where
  "form_example =
     \<lparr>bf_height = 2,
      mat = Some \<lparr>sm_height = 2, sm_width = 2,
                  entry = (\<lambda>i j. if i = j then 2 else -1)\<rparr>,
      mat_e = None\<rparr>"






section \<open>Properties\<close>

text \<open>
  C4. \<open>BuildF\<close> builds the continuous-space strategy exactly when the domain collection is
  CONTINUOUS and the force-discontinuous override is off, and builds
  \<open>L2ProjectionL2Space\<close> in every other case. The statement is about every object the
  constructor returns, serial or parallel.
\<close>

theorem BuildF_selects_strategy:
  "GridTransfer_ctor use_mpi par_dom par_ran force ct = Inr gt \<Longrightarrow>
     (is_H1Space (BuildF use_mpi gt) \<longleftrightarrow> (ct = CONTINUOUS \<and> \<not> force)) \<and>
     (\<not> (ct = CONTINUOUS \<and> \<not> force) \<longrightarrow> BuildF use_mpi gt = Some L2ProjectionL2Space_kind)"
  by (auto simp: GridTransfer_ctor_def BuildF_def is_H1Space_def Parallel_def split: if_splits)

theorem BuildF_selects_strategy_witness:
  "GridTransfer_ctor True True True False CONTINUOUS
     = Inr \<lparr>parallel = True, force_l2_space = False, dom_cont_type = CONTINUOUS\<rparr> \<and>
   is_H1Space (BuildF True \<lparr>parallel = True, force_l2_space = False, dom_cont_type = CONTINUOUS\<rparr>)"
proof -
  have h: "GridTransfer_ctor True True True False CONTINUOUS
     = Inr \<lparr>parallel = True, force_l2_space = False, dom_cont_type = CONTINUOUS\<rparr>"
    by (simp add: GridTransfer_ctor_def)
  show ?thesis using h BuildF_selects_strategy [OF h] by simp
qed

text \<open>
  C10. Construction succeeds exactly when a present \<open>P\<close> comes with a present \<open>R\<close>. On
  every constructed object \<open>Mult\<close> returns a value in each of the three remaining cases,
  namely \<open>R \<circ> localTransfer \<circ> P\<close> with the identity for an absent operator, and
  \<open>MultTranspose\<close> returns \<open>P\<^sup>T \<circ> localTransfer\<^sup>T \<circ> R\<^sup>T\<close>.
\<close>

theorem TrueTransferOperator_dispatch:
  "((\<exists>t. TrueTransferOperator_ctor loc lP hR = Inr t) \<longleftrightarrow> (lP \<noteq> None \<longrightarrow> hR \<noteq> None)) \<and>
   (\<forall>t. TrueTransferOperator_ctor loc lP hR = Inr t \<longrightarrow>
      (\<forall>x. TrueTransferOperator_Mult t x =
             Inr (Mult (or_identity hR) (Mult loc (Mult (or_identity lP) x))) \<and>
           TrueTransferOperator_MultTranspose t x =
             Inr (MultTranspose (or_identity lP)
                    (MultTranspose loc (MultTranspose (or_identity hR) x)))))"
  by (cases lP; cases hR)
     (auto simp: TrueTransferOperator_ctor_def TrueTransferOperator_Mult_def
        TrueTransferOperator_MultTranspose_def or_identity_def)

theorem TrueTransferOperator_dispatch_witness:
  "TrueTransferOperator_ctor \<lparr>height = 2, width = 2, Mult = map ((*) 2), MultTranspose = map ((*) 2)\<rparr> None
       (Some \<lparr>height = 1, width = 2, Mult = tl, MultTranspose = (\<lambda>x. 0 # x)\<rparr>)
     = Inr \<lparr>localTransferOperator = \<lparr>height = 2, width = 2, Mult = map ((*) 2), MultTranspose = map ((*) 2)\<rparr>,
            tto_P = None, tto_R = Some \<lparr>height = 1, width = 2, Mult = tl, MultTranspose = (\<lambda>x. 0 # x)\<rparr>\<rparr> \<and>
   TrueTransferOperator_Mult
       \<lparr>localTransferOperator = \<lparr>height = 2, width = 2, Mult = map ((*) 2), MultTranspose = map ((*) 2)\<rparr>,
         tto_P = None, tto_R = Some \<lparr>height = 1, width = 2, Mult = tl, MultTranspose = (\<lambda>x. 0 # x)\<rparr>\<rparr> [1, 2]
     = Inr [4] \<and>
   TrueTransferOperator_MultTranspose
       \<lparr>localTransferOperator = \<lparr>height = 2, width = 2, Mult = map ((*) 2), MultTranspose = map ((*) 2)\<rparr>,
         tto_P = None, tto_R = Some \<lparr>height = 1, width = 2, Mult = tl, MultTranspose = (\<lambda>x. 0 # x)\<rparr>\<rparr> [3]
     = Inr [0, 6]"
proof -
  have h: "TrueTransferOperator_ctor \<lparr>height = 2, width = 2, Mult = map ((*) 2), MultTranspose = map ((*) 2)\<rparr> None
       (Some \<lparr>height = 1, width = 2, Mult = tl, MultTranspose = (\<lambda>x. 0 # x)\<rparr>)
     = Inr \<lparr>localTransferOperator = \<lparr>height = 2, width = 2, Mult = map ((*) 2), MultTranspose = map ((*) 2)\<rparr>,
            tto_P = None, tto_R = Some \<lparr>height = 1, width = 2, Mult = tl, MultTranspose = (\<lambda>x. 0 # x)\<rparr>\<rparr>"
    by (simp add: TrueTransferOperator_ctor_def)
  show ?thesis
    using h TrueTransferOperator_dispatch
      [of "\<lparr>height = 2, width = 2, Mult = map ((*) 2), MultTranspose = map ((*) 2)\<rparr>" None
          "Some \<lparr>height = 1, width = 2, Mult = tl, MultTranspose = (\<lambda>x. 0 # x)\<rparr>"]
    by (simp add: or_identity_def)
qed

subsection \<open>L2ProjectionL2Space: when the prolongation exists\<close>

lemma write_at_nonempty: "arr \<noteq> [] \<Longrightarrow> write_at arr off vals \<noteq> []"
  by (cases off; cases arr) (auto simp: write_at_def)

lemma fold_offsets_length:
  "length (fold (\<lambda>iho offs. offs @ [offs ! iho + g iho]) [0..<n] [0::nat]) = Suc n"
  by (induction n) auto

lemma fold_offsets_pos:
  "0 < n \<Longrightarrow> \<forall>k<n. 0 < g k \<Longrightarrow>
   0 < fold (\<lambda>iho offs. offs @ [offs ! iho + g iho]) [0..<n] [0::nat] ! n"
proof (induction n)
  case 0 then show ?case by simp
next
  case (Suc n)
  have "fold (\<lambda>iho offs. offs @ [offs ! iho + g iho]) [0..<Suc n] [0::nat] ! Suc n
      = fold (\<lambda>iho offs. offs @ [offs ! iho + g iho]) [0..<n] [0::nat] ! n + g n"
    by (simp add: fold_offsets_length nth_append)
  with Suc.prems show ?case by simp
qed

lemma build_offsets_pos:
  assumes "0 < GetNE fho" "patches_nonempty cf_tr fho flor"
  shows "0 < build_offsets fho flor (BuildHo2Lor (GetNE fho) (GetNE flor) cf_tr) (GetNE fho) ! GetNE fho"
proof -
  let ?h2l = "BuildHo2Lor (GetNE fho) (GetNE flor) cf_tr"
  let ?g = "\<lambda>iho. GetDof (GetFE fho iho) * GetDof (GetFE flor (?h2l ! iho ! 0)) * length (?h2l ! iho)"
  have pos: "\<forall>k<GetNE fho. 0 < ?g k"
    using assms(2) by (auto simp: patches_nonempty_def list_all_iff Let_def)
  have "build_offsets fho flor ?h2l (GetNE fho)
        = fold (\<lambda>iho offs. offs @ [offs ! iho + ?g iho]) [0..<GetNE fho] [0]"
    by (simp add: build_offsets_def Let_def)
  then show ?thesis using fold_offsets_pos [OF assms(1) pos] by simp
qed

lemma fold_snd_inv:
  "(\<And>i a. Q (snd a) \<Longrightarrow> Q (snd (step i a))) \<Longrightarrow> Q (snd acc) \<Longrightarrow> Q (snd (fold step js acc))"
  by (induction js arbitrary: acc) auto

lemma ctor_fes_ho: "fes_ho (L2ProjectionL2Space_ctor nm cf_tr fho flor) = fho"
  by (simp add: L2ProjectionL2Space_ctor_def Let_def case_prod_beta)

lemma ctor_P_built:
  assumes "0 < GetNE fho" "patches_nonempty cf_tr fho flor" "GetTrueVSize fho \<le> GetTrueVSize flor"
  shows "l2_P (L2ProjectionL2Space_ctor nm cf_tr fho flor) \<noteq> []"
proof -
  let ?h2l = "BuildHo2Lor (GetNE fho) (GetNE flor) cf_tr"
  let ?offs = "build_offsets fho flor ?h2l (GetNE fho)"
  let ?step = "\<lambda>iho (Rv, Pv).
                 let (R_iho, P_iho) = L2_patch nm cf_tr fho flor (?h2l ! iho) iho
                 in (write_at Rv (?offs ! iho) (data R_iho),
                     if True then write_at Pv (?offs ! iho) (data P_iho) else Pv)"
  let ?acc = "(replicate (?offs ! GetNE fho) (0::real), replicate (?offs ! GetNE fho) (0::real))"
  have "snd (fold ?step [0..<GetNE fho] ?acc) \<noteq> []"
  proof (rule fold_snd_inv [where Q = "\<lambda>v. v \<noteq> []"])
    show "snd ?acc \<noteq> []" using build_offsets_pos [OF assms(1,2)] by simp
  next
    fix i and a :: "Vector \<times> Vector"
    assume "snd a \<noteq> []"
    then show "snd (?step i a) \<noteq> []"
      by (simp add: write_at_nonempty case_prod_beta)
  qed
  then show ?thesis using assms(1,3)
    by (simp add: L2ProjectionL2Space_ctor_def Let_def case_prod_beta)
qed

lemma ctor_P_not_built:
  assumes "\<not> GetTrueVSize fho \<le> GetTrueVSize flor"
  shows "l2_P (L2ProjectionL2Space_ctor nm cf_tr fho flor) = []"
proof (cases "GetNE fho = 0")
  case True
  then show ?thesis by (simp add: L2ProjectionL2Space_ctor_def)
next
  case False
  let ?h2l = "BuildHo2Lor (GetNE fho) (GetNE flor) cf_tr"
  let ?offs = "build_offsets fho flor ?h2l (GetNE fho)"
  let ?step = "\<lambda>iho (Rv, Pv).
                 let (R_iho, P_iho) = L2_patch nm cf_tr fho flor (?h2l ! iho) iho
                 in (write_at Rv (?offs ! iho) (data R_iho),
                     if False then write_at Pv (?offs ! iho) (data P_iho) else Pv)"
  let ?acc = "(replicate (?offs ! GetNE fho) (0::real), [] :: Vector)"
  have "snd (fold ?step [0..<GetNE fho] ?acc) = []"
  proof (rule fold_snd_inv [where Q = "\<lambda>v. v = []"])
    show "snd ?acc = []" by simp
  next
    fix i and a :: "Vector \<times> Vector"
    assume "snd a = []"
    then show "snd (?step i a) = []"
      by (simp add: case_prod_beta)
  qed
  then show ?thesis using False assms
    by (simp add: L2ProjectionL2Space_ctor_def Let_def case_prod_beta)
qed

lemma ctor_empty_mesh:
  "GetNE fho = 0 \<Longrightarrow> l2_P (L2ProjectionL2Space_ctor nm cf_tr fho flor) = []"
  by (simp add: L2ProjectionL2Space_ctor_def)

text \<open>
  C9. With a coarse space of zero elements the constructor leaves \<open>P\<close> empty, and
  \<open>Prolongate\<close> and \<open>ProlongateTranspose\<close> return at once with the output vector as it
  was and without an error: the test for the empty mesh comes before the test of \<open>P\<close>.
\<close>

theorem L2_Prolongate_empty_mesh:
  "GetNE fho = 0 \<Longrightarrow>
     l2_P (L2ProjectionL2Space_ctor nm cf_tr fho flor) = [] \<and>
     L2ProjectionL2Space_Prolongate (L2ProjectionL2Space_ctor nm cf_tr fho flor) x y = Inr y \<and>
     L2ProjectionL2Space_ProlongateTranspose (L2ProjectionL2Space_ctor nm cf_tr fho flor) x y = Inr y"
  by (simp add: ctor_empty_mesh L2ProjectionL2Space_Prolongate_def
        L2ProjectionL2Space_ProlongateTranspose_def ctor_fes_ho)

theorem L2_Prolongate_empty_mesh_witness:
  "GetNE (space_dg 0 2 0) = 0 \<and>
   l2_P (L2ProjectionL2Space_ctor nm_unit (cf_identity 0) (space_dg 0 2 0) (space_dg 0 1 0)) = [] \<and>
   L2ProjectionL2Space_Prolongate
     (L2ProjectionL2Space_ctor nm_unit (cf_identity 0) (space_dg 0 2 0) (space_dg 0 1 0)) [] [] = Inr [] \<and>
   L2ProjectionL2Space_ProlongateTranspose
     (L2ProjectionL2Space_ctor nm_unit (cf_identity 0) (space_dg 0 2 0) (space_dg 0 1 0)) [] [] = Inr []"
proof -
  have h: "GetNE (space_dg 0 2 0) = 0" by (simp add: space_dg_def)
  show ?thesis
    using h L2_Prolongate_empty_mesh [OF h, of nm_unit "cf_identity 0" "space_dg 0 1 0" "[]" "[]"]
    by simp
qed

text \<open>
  C2, as amended. For a coarse space with at least one element and well-formed patches,
  the constructor (which has no failure of its own) builds \<open>P\<close> exactly when the fine space
  has at least as many true DOFs as the coarse space, and when \<open>P\<close> was not built both
  \<open>Prolongate\<close> and \<open>ProlongateTranspose\<close> fail with \<open>Unsupported\<close>. The counterexample
  further down is the empty coarse mesh, where \<open>P\<close> is never built and no call fails.
\<close>

theorem L2_Prolongate_unsupported:
  assumes "0 < GetNE fho" "patches_nonempty cf_tr fho flor"
  shows "(0 < length (l2_P (L2ProjectionL2Space_ctor nm cf_tr fho flor))
            \<longleftrightarrow> GetTrueVSize fho \<le> GetTrueVSize flor) \<and>
         (\<not> 0 < length (l2_P (L2ProjectionL2Space_ctor nm cf_tr fho flor)) \<longrightarrow>
            L2ProjectionL2Space_Prolongate (L2ProjectionL2Space_ctor nm cf_tr fho flor) x y
              = Inl Unsupported \<and>
            L2ProjectionL2Space_ProlongateTranspose (L2ProjectionL2Space_ctor nm cf_tr fho flor) x y
              = Inl Unsupported)"
proof -
  have built: "0 < length (l2_P (L2ProjectionL2Space_ctor nm cf_tr fho flor))
            \<longleftrightarrow> GetTrueVSize fho \<le> GetTrueVSize flor"
    using ctor_P_built [OF assms, of nm] ctor_P_not_built [of fho flor nm cf_tr] by auto
  show ?thesis using built assms(1)
    by (simp add: L2ProjectionL2Space_Prolongate_def
        L2ProjectionL2Space_ProlongateTranspose_def ctor_fes_ho)
qed

theorem L2_Prolongate_unsupported_counterexample:
  "\<not> ((0 < length (l2_P (L2ProjectionL2Space_ctor nm_unit (cf_identity 0) (space_dg 0 2 0) (space_dg 0 1 0)))
         \<longleftrightarrow> GetTrueVSize (space_dg 0 2 0) \<le> GetTrueVSize (space_dg 0 1 0)) \<and>
       (\<not> 0 < length (l2_P (L2ProjectionL2Space_ctor nm_unit (cf_identity 0) (space_dg 0 2 0) (space_dg 0 1 0))) \<longrightarrow>
          L2ProjectionL2Space_Prolongate
            (L2ProjectionL2Space_ctor nm_unit (cf_identity 0) (space_dg 0 2 0) (space_dg 0 1 0)) [] []
          = Inl Unsupported))"
  by (simp add: L2ProjectionL2Space_ctor_def space_dg_def L2ProjectionL2Space_Prolongate_def)

theorem L2_Prolongate_unsupported_witness:
  "0 < GetNE (space_dg 1 2 2) \<and> patches_nonempty (cf_identity 1) (space_dg 1 2 2) (space_dg 1 1 1) \<and>
   \<not> 0 < length (l2_P (L2ProjectionL2Space_ctor nm_unit (cf_identity 1) (space_dg 1 2 2) (space_dg 1 1 1))) \<and>
   L2ProjectionL2Space_Prolongate
     (L2ProjectionL2Space_ctor nm_unit (cf_identity 1) (space_dg 1 2 2) (space_dg 1 1 1)) [1] [0, 0]
     = Inl Unsupported"
proof -
  have h1: "0 < GetNE (space_dg 1 2 2)" by (simp add: space_dg_def)
  have h2: "patches_nonempty (cf_identity 1) (space_dg 1 2 2) (space_dg 1 1 1)"
    by (simp add: patches_nonempty_def space_dg_def cf_identity_def BuildHo2Lor_def fe_const_def)
  have h3: "\<not> GetTrueVSize (space_dg 1 2 2) \<le> GetTrueVSize (space_dg 1 1 1)"
    by (simp add: space_dg_def)
  show ?thesis
    using h1 h2 h3 L2_Prolongate_unsupported [OF h1 h2, of nm_unit "[1]" "[0, 0]"]
    by simp
qed

subsection \<open>The mixed mass matrix as a quadrature sum\<close>

lemma dm_index_bound: "i < h \<Longrightarrow> j < w \<Longrightarrow> i + j * h < h * (w::nat)"
proof -
  assume a: "i < h" "j < w"
  have "i + j * h < h + j * h" using a by simp
  also have "\<dots> = (Suc j) * h" by simp
  also have "\<dots> \<le> w * h" using a by (intro mult_le_mono1) simp
  finally show ?thesis by (simp add: mult.commute)
qed

lemma Elem_dm_of_fun: "i < h \<Longrightarrow> j < w \<Longrightarrow> Elem (dm_of_fun h w f) i j = f i j"
  using dm_index_bound [of i h j w] by (simp add: Elem_def dm_of_fun_def)

lemma Elem_dm_zero: "i < h \<Longrightarrow> j < w \<Longrightarrow> Elem (dm_zero h w) i j = 0"
  using dm_index_bound [of i h j w] by (simp add: Elem_def dm_zero_def)

lemma dims_dm_of_fun [simp]: "Height (dm_of_fun h w f) = h" "Width (dm_of_fun h w f) = w"
  by (simp_all add: dm_of_fun_def)

lemma dims_dm_zero [simp]: "Height (dm_zero h w) = h" "Width (dm_zero h w) = w"
  by (simp_all add: dm_zero_def)

lemma fold_AddMultVWt:
  "i < Height M \<Longrightarrow> j < Width M \<Longrightarrow>
   Height (fold (\<lambda>ip M. AddMultVWt (v ip) (u ip) M) ir M) = Height M \<and>
   Width (fold (\<lambda>ip M. AddMultVWt (v ip) (u ip) M) ir M) = Width M \<and>
   Elem (fold (\<lambda>ip M. AddMultVWt (v ip) (u ip) M) ir M) i j
     = Elem M i j + (\<Sum>ip\<leftarrow>ir. v ip ! i * u ip ! j)"
proof (induction ir arbitrary: M)
  case Nil
  then show ?case by simp
next
  case (Cons ip ir)
  have "i < Height (AddMultVWt (v ip) (u ip) M)" "j < Width (AddMultVWt (v ip) (u ip) M)"
    using Cons.prems by (simp_all add: AddMultVWt_def)
  from Cons.IH [OF this] Cons.prems show ?case
    by (simp add: AddMultVWt_def Elem_dm_of_fun)
qed

text \<open>
  C5. For the coarse element \<open>iho\<close> and a fine element \<open>ilor\<close> of its patch, every entry of
  the mixed mass matrix is the quadrature sum over the rule of order (fine order + coarse
  order + \<open>OrderW\<close> of the transformation), and the geometric weight in it is the weight of
  the fine element's transformation taken at the fine quadrature point.
\<close>

theorem ElemMixedMass_quadrature:
  assumes "i < GetDof (GetFE flor lor0)" "j < GetDof (GetFE fho iho)"
    and "\<forall>ip. length (CalcShape (GetFE flor lor0) ip) = GetDof (GetFE flor lor0)"
  shows "Elem (patch_ElemMixedMass nm cf_tr fho flor iho lor0 ilor) i j =
     (\<Sum>ip_lor \<leftarrow> IntRules_Get nm (GetElementBaseGeometry fho iho)
                  (GetOrder (GetFE flor lor0) + GetOrder (GetFE fho iho)
                     + OrderW (GetElementTransformation flor ilor)).
        CalcShape (GetFE flor lor0) ip_lor ! i
          * (Weight (GetElementTransformation flor ilor) ip_lor * ip_weight ip_lor)
          * CalcShape (GetFE fho iho)
              (ip_tr_Transform nm (GetElementBaseGeometry fho iho)
                 (point_matrices cf_tr (GetElementBaseGeometry fho iho)
                    (matrix (embeddings cf_tr ! ilor))) ip_lor) ! j)"
proof -
  let ?fl = "GetFE flor lor0" and ?fh = "GetFE fho iho"
  let ?tr = "GetElementTransformation flor ilor"
  let ?geom = "GetElementBaseGeometry fho iho"
  let ?T = "ip_tr_Transform nm ?geom (point_matrices cf_tr ?geom (matrix (embeddings cf_tr ! ilor)))"
  let ?v = "\<lambda>ip. map (\<lambda>s. s * (Weight ?tr ip * ip_weight ip)) (CalcShape ?fl ip)"
  let ?u = "\<lambda>ip. CalcShape ?fh (?T ip)"
  let ?ir = "IntRules_Get nm ?geom (GetOrder ?fl + GetOrder ?fh + OrderW ?tr)"
  have "Elem (fold (\<lambda>ip M. AddMultVWt (?v ip) (?u ip) M) ?ir (dm_zero (GetDof ?fl) (GetDof ?fh))) i j
        = Elem (dm_zero (GetDof ?fl) (GetDof ?fh)) i j + (\<Sum>ip\<leftarrow>?ir. ?v ip ! i * ?u ip ! j)"
    using fold_AddMultVWt [where M = "dm_zero (GetDof ?fl) (GetDof ?fh)" and v = ?v and u = ?u
        and i = i and j = j and ir = ?ir] assms(1,2)
    by simp
  moreover have "\<And>ip. ?v ip ! i = CalcShape ?fl ip ! i * (Weight ?tr ip * ip_weight ip)"
    using assms(1,3) by simp
  ultimately show ?thesis
    using assms(1,2)
    by (simp add: patch_ElemMixedMass_def ElemMixedMass_def Let_def Elem_dm_zero)
qed

theorem ElemMixedMass_quadrature_witness:
  "(0::nat) < GetDof (GetFE (space_dg 1 1 1) 0) \<and> (1::nat) < GetDof (GetFE (space_dg 1 2 2) 0) \<and>
   (\<forall>ip. length (CalcShape (GetFE (space_dg 1 1 1) 0) ip) = GetDof (GetFE (space_dg 1 1 1) 0)) \<and>
   Elem (patch_ElemMixedMass nm_unit (cf_identity 1) (space_dg 1 2 2) (space_dg 1 1 1) 0 0 0) 0 1 = 1"
proof -
  have h1: "(0::nat) < GetDof (GetFE (space_dg 1 1 1) 0)" by (simp add: space_dg_def fe_const_def)
  have h2: "(1::nat) < GetDof (GetFE (space_dg 1 2 2) 0)" by (simp add: space_dg_def fe_const_def)
  have h3: "\<forall>ip. length (CalcShape (GetFE (space_dg 1 1 1) 0) ip) = GetDof (GetFE (space_dg 1 1 1) 0)"
    by (simp add: space_dg_def fe_const_def)
  show ?thesis
    using h1 h2 h3 ElemMixedMass_quadrature [OF h1 h2 h3, of nm_unit "cf_identity 1" 0]
    by (simp add: nm_unit_def space_dg_def fe_const_def tr_unit_def)
qed

subsection \<open>L2ProjectionH1Space: the solver settings\<close>

lemma max_iter_apply_call: "max_iter (pcg (apply_call c op)) = max_iter (pcg op)"
  by (cases c) (simp_all add: SetRelTol_def SetAbsTol_def)

lemma max_iter_apply_calls: "max_iter (pcg (fold apply_call cs op)) = max_iter (pcg op)"
  by (induction cs arbitrary: op) (simp_all add: max_iter_apply_call)

lemma ctor_pcg:
  "max_iter (pcg (L2ProjectionH1Space_ctor fho flor rm P_ho P_lor ds pcg0)) = 1000 \<and>
   rel_tol (pcg (L2ProjectionH1Space_ctor fho flor rm P_ho P_lor ds pcg0)) = 1 / 10 ^ 13 \<and>
   abs_tol (pcg (L2ProjectionH1Space_ctor fho flor rm P_ho P_lor ds pcg0)) = 1 / 10 ^ 13"
  by (simp add: L2ProjectionH1Space_ctor_def SetupPCG_def Let_def case_prod_beta)

text \<open>
  C8, as amended. A constructed \<open>L2ProjectionH1Space\<close> has the iteration cap 1000 and both
  tolerances \<open>10\<^sup>-\<^sup>1\<^sup>3\<close>. \<open>SetRelTol\<close> and \<open>SetAbsTol\<close> replace the one tolerance they name and
  nothing else, so no sequence of setter calls moves the cap. \<open>Prolongate\<close> and
  \<open>ProlongateTranspose\<close> give the same vector whatever the convergence flag of the solver
  runs: a run that stops at the cap is not told apart from one that converged.
\<close>

theorem SetupPCG_defaults:
  "max_iter (pcg (L2ProjectionH1Space_ctor fho flor rm P_ho P_lor ds pcg0)) = 1000 \<and>
   rel_tol (pcg (L2ProjectionH1Space_ctor fho flor rm P_ho P_lor ds pcg0)) = 1 / 10 ^ 13 \<and>
   abs_tol (pcg (L2ProjectionH1Space_ctor fho flor rm P_ho P_lor ds pcg0)) = 1 / 10 ^ 13 \<and>
   rel_tol (pcg (SetRelTol op r)) = r \<and> abs_tol (pcg (SetRelTol op r)) = abs_tol (pcg op) \<and>
   abs_tol (pcg (SetAbsTol op a)) = a \<and> rel_tol (pcg (SetAbsTol op a)) = rel_tol (pcg op) \<and>
   max_iter (pcg (fold apply_call cs op)) = max_iter (pcg op) \<and>
   L2ProjectionH1Space_Prolongate (\<lambda>c b x0. (it c b x0, flag1 c b x0)) op x
     = L2ProjectionH1Space_Prolongate (\<lambda>c b x0. (it c b x0, flag2 c b x0)) op x \<and>
   L2ProjectionH1Space_ProlongateTranspose (\<lambda>c b x0. (it c b x0, flag1 c b x0)) op x
     = L2ProjectionH1Space_ProlongateTranspose (\<lambda>c b x0. (it c b x0, flag2 c b x0)) op x"
  by (simp add: ctor_pcg max_iter_apply_calls SetRelTol_def SetAbsTol_def
      L2ProjectionH1Space_Prolongate_def L2ProjectionH1Space_ProlongateTranspose_def)

theorem SetupPCG_cap_counterexample:
  "\<not> (\<exists>cs. max_iter (pcg (fold apply_call cs h1_example)) \<noteq> 1000)"
  by (simp add: max_iter_apply_calls h1_example_def ctor_pcg)

subsection \<open>TensorProductPRefinementTransferOperator: dimensions without a kernel\<close>

lemma tp_ctor_fields:
  "TensorProductPRefinementTransferOperator_ctor lfes hfes inp = Inr op \<Longrightarrow>
     tp_lFESpace op = lfes \<and> tp_dim op = Dimension lfes \<and>
     (GetNE lfes \<noteq> 0 \<longrightarrow> elem_restrict_lex_l op \<noteq> None \<and> elem_restrict_lex_h op \<noteq> None)"
  by (auto simp: TensorProductPRefinementTransferOperator_ctor_def Let_def
      split: if_splits option.splits)

text \<open>
  C7. For an operator constructed on a non-empty mesh of dimension above 3, \<open>Mult\<close> and
  \<open>MultTranspose\<close> both fail with the unsupported-dimension error: only the dimensions 2
  and 3 have a kernel.
\<close>

theorem TensorProduct_unsupported_dimension:
  assumes "TensorProductPRefinementTransferOperator_ctor lfes hfes inp = Inr op"
    and "GetNE lfes \<noteq> 0" and "3 < Dimension lfes"
  shows "TensorProductPRefinementTransferOperator_Mult op x y
           = Inl (UnsupportedDimension (Dimension lfes)) \<and>
         TensorProductPRefinementTransferOperator_MultTranspose op x y
           = Inl (UnsupportedDimension (Dimension lfes))"
  using tp_ctor_fields [OF assms(1)] assms(2,3)
  by (auto simp: TensorProductPRefinementTransferOperator_Mult_def
      TensorProductPRefinementTransferOperator_MultTranspose_def Let_def)

theorem TensorProduct_unsupported_dimension_witness:
  "(\<exists>op. TensorProductPRefinementTransferOperator_ctor ((space_dg 1 1 1)\<lparr>Dimension := 4\<rparr>)
            ((space_dg 1 1 1)\<lparr>Dimension := 4\<rparr>) tp_inputs_example = Inr op \<and>
         TensorProductPRefinementTransferOperator_Mult op [1] [0] = Inl (UnsupportedDimension 4) \<and>
         TensorProductPRefinementTransferOperator_MultTranspose op [1] [0]
           = Inl (UnsupportedDimension 4)) \<and>
   GetNE ((space_dg 1 1 1)\<lparr>Dimension := 4\<rparr>) \<noteq> 0 \<and>
   3 < Dimension ((space_dg 1 1 1)\<lparr>Dimension := 4\<rparr>)"
proof -
  let ?f = "(space_dg 1 1 1)\<lparr>Dimension := 4\<rparr>"
  obtain op where h1: "TensorProductPRefinementTransferOperator_ctor ?f ?f tp_inputs_example = Inr op"
    by (simp add: TensorProductPRefinementTransferOperator_ctor_def space_dg_def
        tp_inputs_example_def Let_def)
  have h2: "GetNE ?f \<noteq> 0" by (simp add: space_dg_def)
  have h3: "3 < Dimension ?f" by simp
  show ?thesis
    using h1 h2 h3 TensorProduct_unsupported_dimension [OF h1 h2 h3, of "[1]" "[0]"]
    by auto
qed

subsection \<open>BilinearForm: the split of the eliminated matrix\<close>

lemma EliminateRowCol_split:
  "entry (fst (EliminateRowCol rc dp AAe)) i j + entry (snd (EliminateRowCol rc dp AAe)) i j
     = entry (fst AAe) i j + entry (snd AAe) i j"
  by (simp add: EliminateRowCol_def Let_def)

lemma EliminateRowCol_size:
  "sm_height (fst (EliminateRowCol rc dp AAe)) = sm_height (fst AAe)"
  "sm_width (fst (EliminateRowCol rc dp AAe)) = sm_width (fst AAe)"
  "sm_height (snd (EliminateRowCol rc dp AAe)) = sm_height (snd AAe)"
  "sm_width (snd (EliminateRowCol rc dp AAe)) = sm_width (snd AAe)"
  by (simp_all add: EliminateRowCol_def Let_def)

lemma fold_EliminateRowCol:
  "(\<forall>i j. entry (fst (fold (\<lambda>vdof. EliminateRowCol (DecodeDof vdof) dp) vdofs AAe)) i j
         + entry (snd (fold (\<lambda>vdof. EliminateRowCol (DecodeDof vdof) dp) vdofs AAe)) i j
         = entry (fst AAe) i j + entry (snd AAe) i j) \<and>
   sm_height (fst (fold (\<lambda>vdof. EliminateRowCol (DecodeDof vdof) dp) vdofs AAe)) = sm_height (fst AAe) \<and>
   sm_width (fst (fold (\<lambda>vdof. EliminateRowCol (DecodeDof vdof) dp) vdofs AAe)) = sm_width (fst AAe) \<and>
   sm_height (snd (fold (\<lambda>vdof. EliminateRowCol (DecodeDof vdof) dp) vdofs AAe)) = sm_height (snd AAe) \<and>
   sm_width (snd (fold (\<lambda>vdof. EliminateRowCol (DecodeDof vdof) dp) vdofs AAe)) = sm_width (snd AAe)"
proof (induction vdofs arbitrary: AAe)
  case Nil
  show ?case by simp
next
  case (Cons v vs)
  show ?case
    using Cons.IH [of "EliminateRowCol (DecodeDof v) dp AAe"]
    by (simp add: EliminateRowCol_split EliminateRowCol_size)
qed

lemma sum_list_add_rows:
  "(\<Sum>j\<leftarrow>js. a j * (x j :: real)) + (\<Sum>j\<leftarrow>js. b j * x j) = (\<Sum>j\<leftarrow>js. (a j + b j) * x j)"
  by (induction js) (simp_all add: algebra_simps)

lemma AddMult_Mult:
  assumes "sm_height Me = sm_height M" "sm_width Me = sm_width M"
  shows "SparseMatrix_AddMult Me x (SparseMatrix_Mult M x)
       = map (\<lambda>i. \<Sum>j\<leftarrow>[0..<sm_width M]. (entry M i j + entry Me i j) * x ! j) [0..<sm_height M]"
  using assms
  by (simp add: SparseMatrix_AddMult_def SparseMatrix_Mult_def sum_list_add_rows)

text \<open>
  C1. On a freshly assembled form, \<open>EliminateVDofs\<close> in matrix-split mode succeeds for
  every diagonal policy and every list of DOFs, and afterwards \<open>FullMult\<close> gives, for every
  vector, what \<open>Mult\<close> with the matrix before the elimination gives: \<open>M + M\<^sub>e\<close> is still the
  original matrix.
\<close>

theorem FullMult_after_EliminateVDofs:
  assumes "mat form = Some M" "mat_e form = None"
    and "sm_height M = bf_height form" "sm_width M = bf_height form"
  shows "\<exists>form'. EliminateVDofs form vdofs dpolicy = Inr form' \<and>
           FullMult form' x = Inr (SparseMatrix_Mult M x)"
proof -
  let ?res = "fold (\<lambda>vdof. EliminateRowCol (DecodeDof vdof) dpolicy) vdofs
                (M, SparseMatrix_new (bf_height form))"
  let ?form' = "form\<lparr>mat := Some (fst ?res), mat_e := Some (snd ?res)\<rparr>"
  have el: "EliminateVDofs form vdofs dpolicy = Inr ?form'"
    using assms(1,2) by (simp add: EliminateVDofs_def Let_def)
  have inv: "\<forall>i j. entry (fst ?res) i j + entry (snd ?res) i j = entry M i j"
    and sz: "sm_height (fst ?res) = sm_height M" "sm_width (fst ?res) = sm_width M"
      "sm_height (snd ?res) = sm_height M" "sm_width (snd ?res) = sm_width M"
    using fold_EliminateRowCol [of dpolicy vdofs "(M, SparseMatrix_new (bf_height form))"] assms(3,4)
    by (simp_all add: SparseMatrix_new_def)
  have "SparseMatrix_AddMult (snd ?res) x (SparseMatrix_Mult (fst ?res) x) = SparseMatrix_Mult M x"
    using AddMult_Mult [of "snd ?res" "fst ?res" x] inv sz
    by (simp add: SparseMatrix_Mult_def)
  then have "FullMult ?form' x = Inr (SparseMatrix_Mult M x)"
    by (simp add: FullMult_def)
  with el show ?thesis by blast
qed

theorem FullMult_after_EliminateVDofs_witness:
  "mat form_example = Some \<lparr>sm_height = 2, sm_width = 2, entry = (\<lambda>i j. if i = j then 2 else -1)\<rparr> \<and>
   mat_e form_example = None \<and>
   (\<exists>form'. EliminateVDofs form_example [-1] DIAG_ONE = Inr form' \<and>
      FullMult form' [1, 3] = Inr [-1, 5] \<and>
      BilinearForm_Mult form' [1, 3] = Inr [1, 6])"
proof -
  let ?M = "\<lparr>sm_height = 2, sm_width = 2, entry = (\<lambda>i j. if i = j then 2 else (-1::real))\<rparr>"
  have h1: "mat form_example = Some ?M" by (simp add: form_example_def)
  have h2: "mat_e form_example = None" by (simp add: form_example_def)
  have h3: "sm_height ?M = bf_height form_example" by (simp add: form_example_def)
  have h4: "sm_width ?M = bf_height form_example" by (simp add: form_example_def)
  have m: "SparseMatrix_Mult ?M [1, 3] = [-1, 5]"
    by (simp add: SparseMatrix_Mult_def upt_rec)
  obtain form' where e: "EliminateVDofs form_example [-1] DIAG_ONE = Inr form'"
    and f: "FullMult form' [1, 3] = Inr (SparseMatrix_Mult ?M [1, 3])"
    using FullMult_after_EliminateVDofs [OF h1 h2 h3 h4, of "[-1]" DIAG_ONE "[1, 3]"] by blast
  have "BilinearForm_Mult form' [1, 3] = Inr [1, 6]"
    using e by (auto simp: EliminateVDofs_def form_example_def Let_def EliminateRowCol_def
        DecodeDof_def BilinearForm_Mult_def SparseMatrix_Mult_def SparseMatrix_new_def
        diag_value_def upt_rec)
  with h1 h2 e f m show ?thesis by auto
qed

subsection \<open>PRefinementTransferOperator: the transpose and the processed marker\<close>

text \<open>
  Inner products, and the signed gather and scatter of \<open>Vector\<close> entry by entry.
\<close>

lemma sum_list_upt: "(\<Sum>k\<leftarrow>[0..<n]. f k) = (\<Sum>k<n. (f k :: real))"
  by (simp add: interv_sum_list_conv_sum_set_nat atLeast0LessThan)

lemma dot_sum: "dot u v = (\<Sum>k<length u. u ! k * v ! k)"
  by (simp add: dot_def sum_list_upt)




lemma length_GetSubVector [simp]: "length (GetSubVector v dofs) = length dofs"
  by (simp add: GetSubVector_def)

lemma SetSubVector_Cons:
  "SetSubVector v (j # dofs) (e # es) = SetSubVector (v[DecodeDof j := dof_sign j * e]) dofs es"
  by (simp add: SetSubVector_def DecodeDof_def dof_sign_def)

lemma SetSubVector_Nil [simp]: "SetSubVector v [] es = v" "SetSubVector v dofs [] = v"
  by (simp_all add: SetSubVector_def)

lemma length_SetSubVector [simp]: "length (SetSubVector v dofs es) = length v"
proof (induction dofs arbitrary: v es)
  case Nil show ?case by simp
next
  case (Cons j dofs)
  show ?case by (cases es) (simp_all add: SetSubVector_Cons Cons.IH)
qed



lemma AddElementVector_Cons:
  "AddElementVector v (j # dofs) (e # es)
     = AddElementVector (v[DecodeDof j := v ! DecodeDof j + dof_sign j * e]) dofs es"
  by (simp add: AddElementVector_def DecodeDof_def dof_sign_def)

lemma AddElementVector_Nil [simp]: "AddElementVector v [] es = v" "AddElementVector v dofs [] = v"
  by (simp_all add: AddElementVector_def)

lemma length_AddElementVector [simp]: "length (AddElementVector v dofs es) = length v"
proof (induction dofs arbitrary: v es)
  case Nil show ?case by simp
next
  case (Cons j dofs)
  show ?case by (cases es) (simp_all add: AddElementVector_Cons Cons.IH)
qed




lemma length_DenseMatrix_Mult [simp]: "length (DenseMatrix_Mult A v) = Height A"
  by (simp add: DenseMatrix_Mult_def)








lemma dot_zero [simp]: "length x = n \<Longrightarrow> dot x (replicate n 0) = 0"
  by (simp add: dot_sum)

lemma global_row_length [simp]: "length (global_row nm op s) = GetVSize (pr_lFESpace op)"
  by (simp add: global_row_def Let_def)








lemma fold_zero_length:
  "length (fold (\<lambda>p sx. if c p then sx[p := 0::real] else sx) ps sx) = length sx"
  by (induction ps arbitrary: sx) auto

lemma length_zero_processed [simp]: "length (zero_processed pr hds sx) = length sx"
  by (simp add: zero_processed_def fold_zero_length)

lemma fold_mark_length:
  "length (fold (\<lambda>p pr. pr[f p := True]) ps pr) = length pr"
  by (induction ps arbitrary: pr) auto


lemma length_mark_processed [simp]: "length (mark_processed hds pr) = length pr"
  by (simp add: mark_processed_def fold_mark_length)



lemma dims_Transpose [simp]:
  "Height (DenseMatrix_Transpose A) = Width A" "Width (DenseMatrix_Transpose A) = Height A"
  by (simp_all add: DenseMatrix_Transpose_def)

lemma length_Mult_Transpose [simp]:
  "length (DenseMatrix_Mult (DenseMatrix_Transpose A) v) = Width A"
  by (simp add: DenseMatrix_Transpose_def)













end
